theory Spec2Isabelle
  imports Main "HOL-Library.AList" "HOL-Library.Char_ord" "HOL-Library.List_Lexorder"
begin

section \<open>Exceptions and function objects\<close>

text \<open>
  The exceptions the modelled code raises, as values. \<open>InvalidKeywordOption\<close> is the
  class defined in \<^verbatim>\<open>robottools/library/keywords.py\<close>; the others are Python
  built-ins. \<open>SessionError h msg\<close> stands for the handler class \<open>h\<close>'s own
  \<^verbatim>\<open>SessionError\<close> type raised with message \<open>msg\<close>.
\<close>

datatype error =
    InvalidKeywordOption string
  | AttributeError string
  | RuntimeError string
  | KeyError string
  | TypeError string
  | SessionError string string

text \<open>
  The class-level state of one session handler class: its dictionary of running
  sessions (\<^verbatim>\<open>h.sessions\<close>) and its currently active session
  (\<^verbatim>\<open>h.session\<close>, \<open>None\<close> when there is none). The store maps the
  name of a handler class to that state.
\<close>

record 's handler_state =
  sessions :: "(string \<times> 's) list"
  session :: "'s option"

type_synonym 's hstore = "string \<Rightarrow> 's handler_state"

text \<open>
  A keyword method function: its \<^verbatim>\<open>func_name\<close>, its doc string, its argument
  names, and its body. The body receives \<^verbatim>\<open>self\<close> (the address of the library
  instance), the arguments, and the store of the session handlers, which it may change.
\<close>

record ('a, 'r, 's) pyfunc =
  func_name :: string
  func_doc :: string
  func_args :: "string list"
  body :: "nat \<Rightarrow> 'a \<Rightarrow> 's hstore \<Rightarrow> (error + 'r) \<times> 's hstore"

text \<open>
  A bound \<^verbatim>\<open>Keyword(name, func, libinstance=self)\<close>. The class itself is not
  part of the sources at hand; the fields are its constructor's arguments.
\<close>

record ('a, 'r, 's) Keyword =
  kw_name :: string
  kw_func :: "('a, 'r, 's) pyfunc"
  libinstance :: nat

text \<open>
  The object store. Every \<^verbatim>\<open>KeywordsDict()\<close> is an object with an address
  of its own; a class-level table holds function objects, an instance-level table holds
  bound keywords. Both kinds share one address counter, so that the identity test
  \<^verbatim>\<open>self.keywords is type(self).keywords\<close> is a comparison of addresses.
  A table is an association list updated in place by key.
\<close>

record ('a, 'r, 's) world =
  next_addr :: nat
  class_tables :: "nat \<Rightarrow> (string \<times> ('a, 'r, 's) pyfunc) list"
  bound_tables :: "nat \<Rightarrow> (string \<times> ('a, 'r, 's) Keyword) list"

section \<open>The keyword decorator (\<^verbatim>\<open>robottools/library/keywords.py\<close>)\<close>

text \<open>
  A decorator type is given by the \<^verbatim>\<open>option_<name>\<close> attributes visible on
  it (those registered by \<^verbatim>\<open>testlibrary\<close> and the inherited ones), each a
  function from function objects to function objects.
  \<open>hasattr_option T name\<close> is \<^verbatim>\<open>hasattr(type(self), 'option_' + name)\<close>.
\<close>

type_synonym ('a, 'r, 's) decotype =
  "(string \<times> (('a, 'r, 's) pyfunc \<Rightarrow> ('a, 'r, 's) pyfunc)) list"

definition hasattr_option :: "('a, 'r, 's) decotype \<Rightarrow> string \<Rightarrow> bool" where
  "hasattr_option T name = (map_of T name \<noteq> None)"

text \<open>
  A decorator instance: \<^verbatim>\<open>self.librarycls\<close>, here the address of the keywords
  table that \<^verbatim>\<open>self.librarycls.keywords\<close> denotes, and \<^verbatim>\<open>self.options\<close>.
\<close>

record decorator =
  librarycls :: nat
  options :: "string list"

text \<open>The loop of \<^verbatim>\<open>__init__\<close>: the first unregistered option name is raised.\<close>

fun check_options :: "('a, 'r, 's) decotype \<Rightarrow> string list \<Rightarrow> error option" where
  "check_options T [] = None"
| "check_options T (optionname # rest) =
     (if \<not> hasattr_option T optionname then Some (InvalidKeywordOption optionname)
      else check_options T rest)"

definition KeywordDecoratorType_init ::
  "('a, 'r, 's) decotype \<Rightarrow> nat \<Rightarrow> string list \<Rightarrow> error + decorator" where
  "KeywordDecoratorType_init T lib opts =
     (case check_options T opts of
        Some e \<Rightarrow> Inl e
      | None \<Rightarrow> Inr \<lparr>librarycls = lib, options = opts\<rparr>)"

definition no_options :: "('a, 'r, 's) decotype \<Rightarrow> decorator \<Rightarrow> error + decorator" where
  "no_options T self = KeywordDecoratorType_init T (librarycls self) []"

definition reset_options :: "('a, 'r, 's) decotype \<Rightarrow> decorator \<Rightarrow> error + decorator" where
  "reset_options T self = KeywordDecoratorType_init T (librarycls self) []"

text \<open>
  \<^verbatim>\<open>__getattr__(self, name)\<close>, the method Python calls for a name that normal
  attribute lookup does not resolve. The world is passed through to make explicit that
  the method writes nothing.
\<close>

definition decorator_getattr ::
  "('a, 'r, 's) decotype \<Rightarrow> decorator \<Rightarrow> string \<Rightarrow> ('a, 'r, 's) world
     \<Rightarrow> (error + decorator) \<times> ('a, 'r, 's) world" where
  "decorator_getattr T self name w =
     (if \<not> hasattr_option T name then (Inl (AttributeError name), w)
      else (KeywordDecoratorType_init T (librarycls self) (name # options self), w))"

text \<open>
  Attribute access \<^verbatim>\<open>self.name\<close> as a whole. Python first looks the name up in the
  normal way and calls \<^verbatim>\<open>__getattr__\<close> only when that fails. The normal lookup
  finds the two properties \<^verbatim>\<open>no_options\<close> and \<^verbatim>\<open>reset_options\<close>, the two
  instance attributes \<^verbatim>\<open>librarycls\<close> and \<^verbatim>\<open>options\<close>, the functions
  \<^verbatim>\<open>option_<name>\<close> of the type, the methods defined in the class, and what
  every instance of a class has without the class defining it (the names inherited
  from \<^verbatim>\<open>object\<close> and the special attributes such as \<^verbatim>\<open>__doc__\<close>,
  \<^verbatim>\<open>__dict__\<close> and \<^verbatim>\<open>__module__\<close>); the names of the last kind are the
  parameter \<open>inherited\<close>. A property is represented by the outcome of its getter.
\<close>

definition startswith :: "'c list \<Rightarrow> 'c list \<Rightarrow> bool" where
  "startswith s prefix = (take (length prefix) s = prefix)"

datatype ('a, 'r, 's) attribute =
    Decorator decorator
  | LibraryClass nat
  | OptionNames "string list"
  | OptionFunction "('a, 'r, 's) pyfunc \<Rightarrow> ('a, 'r, 's) pyfunc"
  | OtherAttribute string

definition normal_lookup ::
  "(string \<Rightarrow> bool) \<Rightarrow> ('a, 'r, 's) decotype \<Rightarrow> decorator \<Rightarrow> string
     \<Rightarrow> (error + ('a, 'r, 's) attribute) option" where
  "normal_lookup inherited T self name =
     (if name = ''no_options'' then Some (map_sum id Decorator (no_options T self))
      else if name = ''reset_options'' then Some (map_sum id Decorator (reset_options T self))
      else if name = ''librarycls'' then Some (Inr (LibraryClass (librarycls self)))
      else if name = ''options'' then Some (Inr (OptionNames (options self)))
      else if startswith name ''option_''
      then (case map_of T (drop (length ''option_'') name) of
              Some deco \<Rightarrow> Some (Inr (OptionFunction deco))
            | None \<Rightarrow> if inherited name then Some (Inr (OtherAttribute name)) else None)
      else if name \<in> set [''__init__'', ''__getattr__'', ''__call__''] \<or> inherited name
      then Some (Inr (OtherAttribute name))
      else None)"

definition decorator_attribute ::
  "(string \<Rightarrow> bool) \<Rightarrow> ('a, 'r, 's) decotype \<Rightarrow> decorator \<Rightarrow> string
     \<Rightarrow> ('a, 'r, 's) world \<Rightarrow> (error + ('a, 'r, 's) attribute) \<times> ('a, 'r, 's) world" where
  "decorator_attribute inherited T self name w =
     (case normal_lookup inherited T self name of
        Some found \<Rightarrow> (found, w)
      | None \<Rightarrow>
          (case decorator_getattr T self name w of
             (Inl e, w') \<Rightarrow> (Inl e, w')
           | (Inr d, w') \<Rightarrow> (Inr (Decorator d), w')))"

text \<open>
  The loop of \<^verbatim>\<open>__call__\<close>: each option of \<^verbatim>\<open>self.options\<close>, in the stored
  order, replaces \<^verbatim>\<open>func\<close> by \<^verbatim>\<open>decorator(func)\<close>.
\<close>

fun apply_options ::
  "('a, 'r, 's) decotype \<Rightarrow> string list \<Rightarrow> ('a, 'r, 's) pyfunc
     \<Rightarrow> error + ('a, 'r, 's) pyfunc" where
  "apply_options T [] func = Inr func"
| "apply_options T (optionname # rest) func =
     (case map_of T optionname of
        None \<Rightarrow> Inl (AttributeError (''option_'' @ optionname))
      | Some deco \<Rightarrow> apply_options T rest (deco func))"

text \<open>\<^verbatim>\<open>self.librarycls.keywords[key] = func\<close>\<close>

definition store_keyword ::
  "nat \<Rightarrow> string \<Rightarrow> ('a, 'r, 's) pyfunc \<Rightarrow> ('a, 'r, 's) world \<Rightarrow> ('a, 'r, 's) world" where
  "store_keyword addr key func w =
     w\<lparr>class_tables := (class_tables w)(addr := AList.update key func (class_tables w addr))\<rparr>"

text \<open>
  \<^verbatim>\<open>__call__(self, func, name=None)\<close>. \<^verbatim>\<open>name or func.func_name\<close> takes the
  function's name when \<^verbatim>\<open>name\<close> is \<^verbatim>\<open>None\<close> or the empty string.
\<close>

definition decorator_call ::
  "('a, 'r, 's) decotype \<Rightarrow> decorator \<Rightarrow> ('a, 'r, 's) pyfunc \<Rightarrow> string option
     \<Rightarrow> ('a, 'r, 's) world \<Rightarrow> (error + ('a, 'r, 's) pyfunc) \<times> ('a, 'r, 's) world" where
  "decorator_call T self func name w =
     (case apply_options T (options self) func of
        Inl e \<Rightarrow> (Inl e, w)
      | Inr func' \<Rightarrow>
          (Inr func',
           store_keyword (librarycls self)
             (case name of
                None \<Rightarrow> func_name func'
              | Some n \<Rightarrow> if n = [] then func_name func' else n)
             func' w))"

section \<open>The test library base (\<^verbatim>\<open>robottools/library/__init__.py\<close>)\<close>

text \<open>
  A context object (its handler class and its name), a context handler class (its
  \<^verbatim>\<open>__name__\<close>, the \<^verbatim>\<open>default\<close> context of its instance, its generated
  keywords) and a session handler class (its \<^verbatim>\<open>__name__\<close>, the two identifier
  names of its \<^verbatim>\<open>meta\<close>, its generated keywords). The handler classes are supplied
  by the library author; a session handler class is identified by its name in the
  store of handler states.
\<close>

record active_context =
  ctx_handler :: string
  ctx_name :: string

record ('a, 'r, 's) context_handler =
  ch_name :: string
  ch_default :: active_context
  ch_keywords :: "(string \<times> ('a, 'r, 's) pyfunc) list"

record ('a, 'r, 's) session_handler =
  sh_name :: string
  identifier_name :: string
  plural_identifier_name :: string
  sh_keywords :: "(string \<times> ('a, 'r, 's) pyfunc) list"

text \<open>
  A library class, as far as the methods and properties below read it: its
  \<^verbatim>\<open>__name__\<close> and the class attributes \<^verbatim>\<open>keywords\<close> (the address of the
  table that the keyword decorator fills), \<^verbatim>\<open>context_handlers\<close> and
  \<^verbatim>\<open>session_handlers\<close>.
\<close>

record ('a, 'r, 's) libclass =
  cls_name :: string
  cls_keywords :: nat
  context_handlers :: "(string \<times> ('a, 'r, 's) context_handler) list"
  session_handlers :: "(string \<times> ('a, 'r, 's) session_handler) list"

text \<open>
  An instance: its own address, its class, and the instance attributes
  \<^verbatim>\<open>keywords\<close> (unset until the base \<^verbatim>\<open>__init__\<close> has run) and
  \<^verbatim>\<open>contexts\<close>.
\<close>

record ('a, 'r, 's) libinstance =
  self_addr :: nat
  cls :: "('a, 'r, 's) libclass"
  inst_keywords :: "nat option"
  contexts :: "active_context list"

text \<open>
  \<^verbatim>\<open>self.keywords\<close>: the instance attribute when it is set, the class attribute
  otherwise.
\<close>

definition self_keywords :: "('a, 'r, 's) libinstance \<Rightarrow> nat" where
  "self_keywords self =
     (case inst_keywords self of Some a \<Rightarrow> a | None \<Rightarrow> cls_keywords (cls self))"

text \<open>The message of \<^verbatim>\<open>check_keywords\<close>, after \<^verbatim>\<open>dedent\<close>.\<close>

definition no_keywords_message :: "string \<Rightarrow> string" where
  "no_keywords_message name =
     [CHR 0x0A, CHR 0x27] @ name @ [CHR 0x27]
     @ '' instance has no instance-bound .keywords mapping.'' @ [CHR 0x0A]
     @ ''Was Test Library'' @ [CHR 0x27] @ ''s base __init__ called?'' @ [CHR 0x0A]"

text \<open>
  The decorator \<^verbatim>\<open>check_keywords\<close>, for a method that returns a value and for a
  method that also changes the store of the session handlers.
\<close>

definition check_keywords ::
  "(('a, 'r, 's) libinstance \<Rightarrow> error + 'b) \<Rightarrow> ('a, 'r, 's) libinstance \<Rightarrow> error + 'b" where
  "check_keywords func self =
     (if self_keywords self = cls_keywords (cls self)
      then Inl (RuntimeError (no_keywords_message (cls_name (cls self))))
      else func self)"

definition check_keywords_st ::
  "(('a, 'r, 's) libinstance \<Rightarrow> 's hstore \<Rightarrow> (error + 'b) \<times> 's hstore)
     \<Rightarrow> ('a, 'r, 's) libinstance \<Rightarrow> 's hstore \<Rightarrow> (error + 'b) \<times> 's hstore" where
  "check_keywords_st func self st =
     (if self_keywords self = cls_keywords (cls self)
      then (Inl (RuntimeError (no_keywords_message (cls_name (cls self)))), st)
      else func self st)"

text \<open>\<^verbatim>\<open>self.keywords[name]\<close> on the instance's table: a dictionary lookup.\<close>

definition keywords_getitem ::
  "('a, 'r, 's) world \<Rightarrow> ('a, 'r, 's) libinstance \<Rightarrow> string \<Rightarrow> error + ('a, 'r, 's) Keyword" where
  "keywords_getitem w self name =
     (case map_of (bound_tables w (self_keywords self)) name of
        None \<Rightarrow> Inl (KeyError name)
      | Some kw \<Rightarrow> Inr kw)"

definition get_keyword_names ::
  "('a, 'r, 's) world \<Rightarrow> ('a, 'r, 's) libinstance \<Rightarrow> error + string list" where
  "get_keyword_names w =
     check_keywords (\<lambda>self. Inr (map fst (bound_tables w (self_keywords self))))"

text \<open>
  \<^verbatim>\<open>keyword(*args, **kwargs)\<close> on a bound keyword calls its function with the
  instance it is bound to.
\<close>

definition run_keyword ::
  "('a, 'r, 's) world \<Rightarrow> ('a, 'r, 's) libinstance \<Rightarrow> string \<Rightarrow> 'a \<Rightarrow> 's hstore
     \<Rightarrow> (error + 'r) \<times> 's hstore" where
  "run_keyword w self name args =
     check_keywords_st
       (\<lambda>self st. case keywords_getitem w self name of
            Inl e \<Rightarrow> (Inl e, st)
          | Inr kw \<Rightarrow> body (kw_func kw) (libinstance kw) args st)
       self"

definition get_keyword_documentation ::
  "('a, 'r, 's) world \<Rightarrow> ('a, 'r, 's) libinstance \<Rightarrow> string \<Rightarrow> error + string" where
  "get_keyword_documentation w self name =
     check_keywords
       (\<lambda>self. if name = ''__intro__'' then Inr []
          else if name = ''__init__'' then Inr []
          else (case keywords_getitem w self name of
                  Inl e \<Rightarrow> Inl e
                | Inr kw \<Rightarrow> Inr (func_doc (kw_func kw))))
       self"

definition get_keyword_arguments ::
  "('a, 'r, 's) world \<Rightarrow> ('a, 'r, 's) libinstance \<Rightarrow> string \<Rightarrow> error + string list" where
  "get_keyword_arguments w self name =
     check_keywords
       (\<lambda>self. case keywords_getitem w self name of
            Inl e \<Rightarrow> Inl e
          | Inr kw \<Rightarrow> Inr (func_args (kw_func kw)))
       self"

text \<open>
  \<^verbatim>\<open>__getattr__\<close>, the method Python calls when the normal lookup on the instance
  fails. \<^verbatim>\<open>getattr(self.keywords, name)\<close> finds an attribute that the
  \<^verbatim>\<open>KeywordsDict\<close> object has of its own (the parameter \<open>own_attribute\<close>), and
  otherwise the keyword stored under the key that the name converts to
  (\<^verbatim>\<open>decamelize\<close> of the \<^verbatim>\<open>moretools\<close> package, the parameter
  \<open>attr_to_key\<close>).
\<close>

definition no_attribute_message :: "string \<Rightarrow> string \<Rightarrow> string" where
  "no_attribute_message tname name =
     [CHR 0x27] @ tname @ [CHR 0x27] @ '' instance has no attribute or Keyword ''
     @ [CHR 0x27] @ name @ [CHR 0x27]"

datatype ('k, 'v) found_attribute = BoundKeyword 'k | DictAttribute 'v

definition library_getattr ::
  "(string \<Rightarrow> 'v option) \<Rightarrow> (string \<Rightarrow> string) \<Rightarrow> ('a, 'r, 's) world
     \<Rightarrow> ('a, 'r, 's) libinstance \<Rightarrow> string
     \<Rightarrow> error + (('a, 'r, 's) Keyword, 'v) found_attribute" where
  "library_getattr own_attribute attr_to_key w self name =
     check_keywords
       (\<lambda>self. case own_attribute name of
            Some v \<Rightarrow> Inr (DictAttribute v)
          | None \<Rightarrow>
              (case map_of (bound_tables w (self_keywords self)) (attr_to_key name) of
                 None \<Rightarrow>
                   Inl (AttributeError (no_attribute_message (cls_name (cls self)) name))
               | Some kw \<Rightarrow> Inr (BoundKeyword kw)))
       self"

text \<open>
  \<^verbatim>\<open>__dir__\<close> returns \<^verbatim>\<open>dir(self.keywords)\<close>: the names that the keys convert
  to (\<^verbatim>\<open>camelize\<close>, the parameter \<open>key_to_attr\<close>), sorted, as the built-in
  \<^verbatim>\<open>dir\<close> sorts what it returns.
\<close>

definition library_dir ::
  "(string \<Rightarrow> string) \<Rightarrow> ('a, 'r, 's) world \<Rightarrow> ('a, 'r, 's) libinstance
     \<Rightarrow> error + string list" where
  "library_dir key_to_attr w =
     check_keywords
       (\<lambda>self. Inr (sort (map (key_to_attr \<circ> fst) (bound_tables w (self_keywords self)))))"

text \<open>
  The second loop of \<^verbatim>\<open>TestLibraryType.__init__\<close>: one bound keyword per entry
  of the class's table, stored under the same name in the new table.
\<close>

fun bind_keywords ::
  "nat \<Rightarrow> (string \<times> ('a, 'r, 's) pyfunc) list \<Rightarrow> (string \<times> ('a, 'r, 's) Keyword) list
     \<Rightarrow> (string \<times> ('a, 'r, 's) Keyword) list" where
  "bind_keywords self [] table = table"
| "bind_keywords self ((name, func) # rest) table =
     bind_keywords self rest
       (AList.update name \<lparr>kw_name = name, kw_func = func, libinstance = self\<rparr> table)"

definition TestLibraryType_init ::
  "('a, 'r, 's) libinstance \<Rightarrow> ('a, 'r, 's) world
     \<Rightarrow> ('a, 'r, 's) libinstance \<times> ('a, 'r, 's) world" where
  "TestLibraryType_init self w =
     (let ctxs = map (\<lambda>(name, handler). ch_default handler) (context_handlers (cls self));
          a = next_addr w;
          table = bind_keywords (self_addr self)
                    (class_tables w (cls_keywords (cls self))) []
      in (self\<lparr>contexts := ctxs, inst_keywords := Some a\<rparr>,
          w\<lparr>next_addr := Suc a, bound_tables := (bound_tables w)(a := table)\<rparr>))"

text \<open>
  Creating an object of the class without running any constructor, and the call
  \<^verbatim>\<open>cls()\<close> of a class that keeps the base \<^verbatim>\<open>__init__\<close>.
\<close>

definition new_object ::
  "('a, 'r, 's) libclass \<Rightarrow> ('a, 'r, 's) world
     \<Rightarrow> ('a, 'r, 's) libinstance \<times> ('a, 'r, 's) world" where
  "new_object c w =
     (\<lparr>self_addr = next_addr w, cls = c, inst_keywords = None, contexts = []\<rparr>,
      w\<lparr>next_addr := Suc (next_addr w)\<rparr>)"

definition instantiate ::
  "('a, 'r, 's) libclass \<Rightarrow> ('a, 'r, 's) world
     \<Rightarrow> ('a, 'r, 's) libinstance \<times> ('a, 'r, 's) world" where
  "instantiate c w = (case new_object c w of (self, w') \<Rightarrow> TestLibraryType_init self w')"

subsection \<open>What \<^verbatim>\<open>testlibrary\<close> generates\<close>

text \<open>
  Of the class factory the decorator type and the properties are given, which is what
  the theorems below read. The factory's own decorator instance is made as
  \<^verbatim>\<open>decotype(keywords, *default_keyword_options)\<close>, with the table itself in the
  place of \<^verbatim>\<open>librarycls\<close>; the decorator of the previous section is one whose
  \<^verbatim>\<open>librarycls\<close> has the table as its \<^verbatim>\<open>keywords\<close> attribute, and the
  factory's loops that store the handlers' keywords through its own instance are not
  given here.
\<close>

text \<open>
  The inherited option \<^verbatim>\<open>option_unicode_to_str\<close>. The conversion of the
  arguments is a parameter; the wrapper keeps the function's name only.
\<close>

definition option_unicode_to_str ::
  "('a \<Rightarrow> 'a) \<Rightarrow> ('a, 'r, 's) pyfunc \<Rightarrow> ('a, 'r, 's) pyfunc" where
  "option_unicode_to_str conv func =
     \<lparr>func_name = func_name func, func_doc = [], func_args = [''*args'', ''**kwargs''],
      body = (\<lambda>self args. body func self (conv args))\<rparr>"

text \<open>
  The decorator type generated from \<^verbatim>\<open>register_keyword_options\<close> (pairs of
  option name and decorator function; a later pair replaces an earlier one of the same
  name), followed by what it inherits.
\<close>

definition make_decotype ::
  "('a \<Rightarrow> 'a) \<Rightarrow> ('a, 'r, 's) decotype \<Rightarrow> ('a, 'r, 's) decotype" where
  "make_decotype conv register_keyword_options =
     fold (\<lambda>(optionname, decofunc). AList.update optionname decofunc)
       register_keyword_options []
     @ [(''unicode_to_str'', option_unicode_to_str conv)]"

text \<open>
  The properties \<^verbatim>\<open>testlibrary\<close> puts on the class: the active context name of
  a context handler class, and, for a session handler class \<open>h\<close>, the dictionary of
  running sessions and the currently active session. The last two read the handler
  class's own attributes \<^verbatim>\<open>h.sessions\<close> and \<^verbatim>\<open>h.session\<close>.
\<close>

fun context_scan :: "string \<Rightarrow> active_context list \<Rightarrow> error + string" where
  "context_scan handlercls [] = Inl (RuntimeError [])"
| "context_scan handlercls (current # rest) =
     (if ctx_handler current = handlercls then Inr (ctx_name current)
      else context_scan handlercls rest)"

definition context_property ::
  "('a, 'r, 's) context_handler \<Rightarrow> ('a, 'r, 's) libinstance \<Rightarrow> error + string" where
  "context_property handlercls self = context_scan (ch_name handlercls) (contexts self)"

definition sessions_property ::
  "('a, 'r, 's) session_handler \<Rightarrow> ('a, 'r, 's) libinstance \<Rightarrow> 's hstore
     \<Rightarrow> (string \<times> 's) list" where
  "sessions_property h self st = sessions (st (sh_name h))"

definition session_property ::
  "('a, 'r, 's) session_handler \<Rightarrow> ('a, 'r, 's) libinstance \<Rightarrow> 's hstore \<Rightarrow> error + 's" where
  "session_property h self st =
     (case session (st (sh_name h)) of
        None \<Rightarrow> Inl (SessionError (sh_name h) ''No active session.'')
      | Some s \<Rightarrow> Inr s)"

section \<open>The remote robot (\<^verbatim>\<open>robottools/remote/__init__.py\<close>)\<close>

text \<open>
  Values that travel over the remote transport, and a remote function: what the
  server's dispatcher calls with the list of positional parameters of a request.
\<close>

datatype pyval = PyNone | PyBool bool | PyStr string | PyList "pyval list"

type_synonym endpoint = "pyval list \<Rightarrow> error + pyval"

text \<open>
  A keyword of the robot (\<^verbatim>\<open>robottools.testrobot.Keyword\<close>, not part of the
  sources at hand): what calling it does, its \<^verbatim>\<open>__repr__()\<close> and its
  \<^verbatim>\<open>__doc__\<close>.
\<close>

record remote_keyword =
  rk_call :: endpoint
  rk_repr :: string
  rk_doc :: string

text \<open>
  The attributes of a \<^verbatim>\<open>RemoteRobot\<close> that the modelled methods read or write:
  \<^verbatim>\<open>_libraries\<close>, \<^verbatim>\<open>register_keywords\<close>, \<^verbatim>\<open>introspection\<close>,
  \<^verbatim>\<open>allow_import\<close> (\<open>None\<close> as long as the attribute has not been assigned) and
  the server's dictionary \<^verbatim>\<open>funcs\<close> of registered remote functions.
\<close>

record 'l remote_robot =
  libraries :: "(string \<times> 'l) list"
  register_keywords :: bool
  introspection :: bool
  allow_import :: "string list option"
  funcs :: "(string \<times> endpoint) list"

text \<open>
  What the base classes outside the sources contribute, as parameters:
  \<^verbatim>\<open>TestRobot.__init__\<close> (the initial \<^verbatim>\<open>_libraries\<close>),
  \<^verbatim>\<open>TestRobot.Import\<close>, \<^verbatim>\<open>TestRobot.__getitem__\<close>, \<^verbatim>\<open>dir(lib)\<close> of a
  wrapped library, the functions registered by
  \<^verbatim>\<open>RobotRemoteServer._register_functions\<close> and those registered by
  \<^verbatim>\<open>register_introspection_functions\<close>.
\<close>

record 'l robot_api =
  initial_libraries :: "(string \<times> 'l) list"
  robot_Import :: "string \<Rightarrow> 'l remote_robot \<Rightarrow> error + 'l remote_robot"
  robot_getitem :: "'l remote_robot \<Rightarrow> string \<Rightarrow> error + remote_keyword"
  lib_dir :: "'l \<Rightarrow> string list"
  base_functions :: "(string \<times> endpoint) list"
  introspection_functions :: "(string \<times> endpoint) list"

text \<open>\<^verbatim>\<open>register_function(func, funcname)\<close>: \<^verbatim>\<open>self.funcs[funcname] = func\<close>.\<close>

definition register_function ::
  "endpoint \<Rightarrow> string \<Rightarrow> (string \<times> endpoint) list \<Rightarrow> (string \<times> endpoint) list" where
  "register_function func funcname fs = AList.update funcname func fs"

text \<open>
  A callable without parameters (\<^verbatim>\<open>lambda: v\<close>, or a bound method without
  arguments): called with no parameter it returns its value, called with any
  parameter it raises \<^verbatim>\<open>TypeError\<close>, here tagged with the callable's name.
\<close>

definition no_parameters :: "string \<Rightarrow> pyval \<Rightarrow> endpoint" where
  "no_parameters fname v params = (if params = [] then Inr v else Inl (TypeError fname))"

definition keyword_functions :: "string \<Rightarrow> remote_keyword \<Rightarrow> (string \<times> endpoint) list" where
  "keyword_functions name kw =
     [(name, rk_call kw),
      (name @ ''.__repr__'', no_parameters ''__repr__'' (PyStr (rk_repr kw))),
      (name @ ''.getdoc'', no_parameters ''<lambda>'' (PyStr (rk_doc kw))),
      (name @ ''.__nonzero__'', no_parameters ''<lambda>'' (PyBool True))]"

fun register_all ::
  "(string \<times> endpoint) list \<Rightarrow> (string \<times> endpoint) list \<Rightarrow> (string \<times> endpoint) list" where
  "register_all [] fs = fs"
| "register_all ((funcname, func) # rest) fs = register_all rest (register_function func funcname fs)"

definition register_keyword ::
  "string \<Rightarrow> remote_keyword \<Rightarrow> (string \<times> endpoint) list \<Rightarrow> (string \<times> endpoint) list" where
  "register_keyword name kw fs = register_all (keyword_functions name kw) fs"

text \<open>
  \<^verbatim>\<open>_register_library_keywords\<close>: the loop over \<^verbatim>\<open>dir(lib)\<close>; an exception of
  \<^verbatim>\<open>self[keywordname]\<close> leaves the loop.
\<close>

fun register_keyword_names ::
  "(string \<Rightarrow> error + remote_keyword) \<Rightarrow> string list \<Rightarrow> (string \<times> endpoint) list
     \<Rightarrow> error + (string \<times> endpoint) list" where
  "register_keyword_names getitem [] fs = Inr fs"
| "register_keyword_names getitem (keywordname # rest) fs =
     (case getitem keywordname of
        Inl e \<Rightarrow> Inl e
      | Inr kw \<Rightarrow> register_keyword_names getitem rest (register_keyword keywordname kw fs))"

definition register_library_keywords ::
  "'l robot_api \<Rightarrow> 'l remote_robot \<Rightarrow> 'l \<Rightarrow> (string \<times> endpoint) list
     \<Rightarrow> error + (string \<times> endpoint) list" where
  "register_library_keywords api self lib fs =
     register_keyword_names (robot_getitem api self) (lib_dir api lib) fs"

fun register_libraries ::
  "'l robot_api \<Rightarrow> 'l remote_robot \<Rightarrow> 'l list \<Rightarrow> (string \<times> endpoint) list
     \<Rightarrow> error + (string \<times> endpoint) list" where
  "register_libraries api self [] fs = Inr fs"
| "register_libraries api self (lib # rest) fs =
     (case register_library_keywords api self lib fs of
        Inl e \<Rightarrow> Inl e
      | Inr fs' \<Rightarrow> register_libraries api self rest fs')"

definition register_functions ::
  "'l robot_api \<Rightarrow> 'l remote_robot \<Rightarrow> error + 'l remote_robot" where
  "register_functions api self =
     (let fs0 = register_all (base_functions api) (funcs self)
      in case (if register_keywords self
               then register_libraries api self (map snd (libraries self)) fs0
               else Inr fs0) of
           Inl e \<Rightarrow> Inl e
         | Inr fs1 \<Rightarrow>
             Inr (self\<lparr>funcs := (if introspection self
                                   then register_all (introspection_functions api) fs1
                                   else fs1)\<rparr>))"

text \<open>The loop \<^verbatim>\<open>for lib in libraries: self.Import(lib)\<close>.\<close>

fun import_libraries ::
  "'l robot_api \<Rightarrow> string list \<Rightarrow> 'l remote_robot \<Rightarrow> error + 'l remote_robot" where
  "import_libraries api [] self = Inr self"
| "import_libraries api (lib # rest) self =
     (case robot_Import api lib self of
        Inl e \<Rightarrow> Inl e
      | Inr self' \<Rightarrow> import_libraries api rest self')"

text \<open>
  The object when the import loop of \<^verbatim>\<open>RemoteRobot.__init__\<close> starts: the two
  flags are assigned, \<^verbatim>\<open>allow_import\<close> is not.
\<close>

definition robot_before_imports :: "'l robot_api \<Rightarrow> bool \<Rightarrow> bool \<Rightarrow> 'l remote_robot" where
  "robot_before_imports api reg intro =
     \<lparr>libraries = initial_libraries api, register_keywords = reg, introspection = intro,
      allow_import = None, funcs = []\<rparr>"

text \<open>
  \<^verbatim>\<open>RemoteRobot.__init__(libraries, allow_import, register_keywords, introspection)\<close>.
  \<^verbatim>\<open>list(allow_import or [])\<close> is the empty list for \<^verbatim>\<open>None\<close>. The last
  statement, the constructor of the server, registers the remote functions through
  \<^verbatim>\<open>self._register_functions()\<close>.
\<close>

definition RemoteRobot_init ::
  "'l robot_api \<Rightarrow> string list \<Rightarrow> string list option \<Rightarrow> bool \<Rightarrow> bool
     \<Rightarrow> error + 'l remote_robot" where
  "RemoteRobot_init api libs allow reg intro =
     (case import_libraries api libs (robot_before_imports api reg intro) of
        Inl e \<Rightarrow> Inl e
      | Inr self \<Rightarrow>
          register_functions api
            (self\<lparr>allow_import := Some (case allow of None \<Rightarrow> [] | Some xs \<Rightarrow> xs)\<rparr>))"

text \<open>The dispatcher of the server: \<^verbatim>\<open>self.funcs[method](*params)\<close>.\<close>

definition dispatch :: "'l remote_robot \<Rightarrow> string \<Rightarrow> pyval list \<Rightarrow> error + pyval" where
  "dispatch self method params =
     (case map_of (funcs self) method of
        None \<Rightarrow> Inl (KeyError method)
      | Some func \<Rightarrow> func params)"

section \<open>The shell magics (\<^verbatim>\<open>robotshell/magic.py\<close>)\<close>

text \<open>
  A text is the list of its code points, so that every character of a unicode string
  is one element. \<open>literal\<close> turns a string literal into a text.
\<close>

type_synonym pytext = "nat list"

definition literal :: "string \<Rightarrow> pytext" where
  "literal s = map of_char s"

text \<open>
  What \<^verbatim>\<open>strip()\<close> and \<^verbatim>\<open>split()\<close> take for whitespace depends on the type
  of the string. The code is Python 2: on a \<^verbatim>\<open>unicode\<close> string, which is what the
  shell passes to a magic, whitespace is the first set below; on a byte string
  (\<^verbatim>\<open>str\<close>) it is the second. The magics are therefore given the type of their
  argument text together with its characters.
\<close>

datatype string_type = Unicode | Str

definition unicode_space :: "nat \<Rightarrow> bool" where
  "unicode_space c =
     (c \<in> set [0x09, 0x0A, 0x0B, 0x0C, 0x0D, 0x1C, 0x1D, 0x1E, 0x1F, 0x20, 0x85, 0xA0,
               0x1680, 0x180E, 0x2000, 0x2001, 0x2002, 0x2003, 0x2004, 0x2005, 0x2006,
               0x2007, 0x2008, 0x2009, 0x200A, 0x2028, 0x2029, 0x202F, 0x205F, 0x3000])"

definition bytes_space :: "nat \<Rightarrow> bool" where
  "bytes_space c = (c \<in> set [0x20, 0x09, 0x0A, 0x0D, 0x0B, 0x0C])"

definition whitespace :: "string_type \<Rightarrow> nat \<Rightarrow> bool" where
  "whitespace kind c = (case kind of Unicode \<Rightarrow> unicode_space c | Str \<Rightarrow> bytes_space c)"

text \<open>
  \<^verbatim>\<open>s.strip()\<close> and \<^verbatim>\<open>s.strip(chars)\<close>: the characters that satisfy \<open>P\<close> are
  dropped from the front and from the end.
\<close>

definition strip_where :: "('c \<Rightarrow> bool) \<Rightarrow> 'c list \<Rightarrow> 'c list" where
  "strip_where P s = rev (dropWhile P (rev (dropWhile P s)))"

definition py_strip :: "string_type \<Rightarrow> pytext \<Rightarrow> pytext" where
  "py_strip kind s = strip_where (whitespace kind) s"

definition strip_chars :: "pytext \<Rightarrow> pytext \<Rightarrow> pytext" where
  "strip_chars chars s = strip_where (\<lambda>c. c \<in> set chars) s"

text \<open>
  Splitting at every character that satisfies \<open>P\<close>; \<^verbatim>\<open>s.split(sep)\<close> for a
  separator of one character; \<^verbatim>\<open>s.split()\<close>, which splits at runs of whitespace
  and returns no empty string.
\<close>

fun split_where :: "('c \<Rightarrow> bool) \<Rightarrow> 'c list \<Rightarrow> 'c list list" where
  "split_where P [] = [[]]"
| "split_where P (c # cs) =
     (if P c then [] # split_where P cs
      else (case split_where P cs of
              [] \<Rightarrow> [[c]]
            | t # ts \<Rightarrow> (c # t) # ts))"

definition split_on :: "nat \<Rightarrow> pytext \<Rightarrow> pytext list" where
  "split_on sep s = split_where (\<lambda>c. c = sep) s"

definition py_split :: "string_type \<Rightarrow> pytext \<Rightarrow> pytext list" where
  "py_split kind s = filter (\<lambda>t. t \<noteq> []) (split_where (whitespace kind) s)"

text \<open>
  The keyword a magic wraps (a \<^verbatim>\<open>robottools.testrobot.Keyword\<close>): calling it
  with positional arguments, and its \<^verbatim>\<open>debug\<close> method.
\<close>

record 'r shell_keyword =
  call :: "pytext list \<Rightarrow> 'r"
  debug :: "pytext list \<Rightarrow> 'r"

definition KeywordMagic_call :: "string_type \<Rightarrow> 'r shell_keyword \<Rightarrow> pytext \<Rightarrow> 'r" where
  "KeywordMagic_call kind kw args_str =
     (if args_str = [] then call kw []
      else debug kw
        (if list_ex (\<lambda>c. startswith args_str [c]) (literal ''[|'')
         then map (py_strip kind)
                (split_on (of_char CHR ''|'') (strip_chars (literal ''[|]'') args_str))
         else py_split kind args_str))"

definition KeywordCellMagic_call :: "string_type \<Rightarrow> 'r shell_keyword \<Rightarrow> pytext \<Rightarrow> 'r" where
  "KeywordCellMagic_call kind kw args_str =
     call kw (map (py_strip kind) (split_on 0x0A (py_strip kind args_str)))"

text \<open>
  What stripping and splitting mean, said without the functions above. A text \<open>s\<close>
  strips to \<open>t\<close> when \<open>s\<close> is \<open>t\<close> between two runs of characters that satisfy \<open>P\<close> and
  \<open>t\<close> neither starts nor ends with such a character. A text \<open>s\<close> splits into the
  tokens \<open>t\<^sub>0, \<dots>, t\<^sub>n\<close> when no token has a character that satisfies \<open>P\<close> and \<open>s\<close> is
  the tokens in their order with one such character between any two neighbours.
\<close>

definition strips_to :: "('c \<Rightarrow> bool) \<Rightarrow> 'c list \<Rightarrow> 'c list \<Rightarrow> bool" where
  "strips_to P s t \<longleftrightarrow>
     (\<exists>l r. s = l @ t @ r \<and> (\<forall>c \<in> set l. P c) \<and> (\<forall>c \<in> set r. P c))
     \<and> (t \<noteq> [] \<longrightarrow> \<not> P (hd t) \<and> \<not> P (last t))"

definition splits_into :: "('c \<Rightarrow> bool) \<Rightarrow> 'c list \<Rightarrow> 'c list list \<Rightarrow> bool" where
  "splits_into P s tokens \<longleftrightarrow>
     tokens \<noteq> []
     \<and> (\<forall>t \<in> set tokens. \<forall>c \<in> set t. \<not> P c)
     \<and> (\<exists>seps. length seps = length (tl tokens) \<and> (\<forall>c \<in> set seps. P c)
           \<and> s = hd tokens @ concat (map2 (#) seps (tl tokens)))"

section \<open>Test objects\<close>

text \<open>
  Concrete objects on which the theorems below are evaluated: an empty object store,
  a store of handler states without any session, a keyword function that returns its
  arguments, and two kinds of option: one whose wrapper appends a marker to the result
  of the wrapped function, one whose wrapper appends a marker to the arguments before
  it calls the wrapped function.
\<close>

definition empty_world :: "(string list, string list, string) world" where
  "empty_world = \<lparr>next_addr = 0, class_tables = (\<lambda>a. []), bound_tables = (\<lambda>a. [])\<rparr>"

definition empty_store :: "string hstore" where
  "empty_store = (\<lambda>h. \<lparr>sessions = [], session = None\<rparr>)"

definition echo :: "(string list, string list, string) pyfunc" where
  "echo = \<lparr>func_name = ''echo'', func_doc = ''Returns its arguments.'',
           func_args = [''*args''], body = (\<lambda>self args st. (Inr args, st))\<rparr>"

definition result_marker :: "'m \<Rightarrow> ('a, 'm list, 's) pyfunc \<Rightarrow> ('a, 'm list, 's) pyfunc" where
  "result_marker m func =
     func\<lparr>body := (\<lambda>self args st.
              case body func self args st of
                (Inr res, st') \<Rightarrow> (Inr (res @ [m]), st')
              | (Inl e, st') \<Rightarrow> (Inl e, st'))\<rparr>"

definition argument_marker :: "'m \<Rightarrow> ('m list, 'r, 's) pyfunc \<Rightarrow> ('m list, 'r, 's) pyfunc" where
  "argument_marker m func = func\<lparr>body := (\<lambda>self args st. body func self (args @ [m]) st)\<rparr>"

definition result_options :: "(string list, string list, string) decotype" where
  "result_options = [(''A'', result_marker ''A''), (''B'', result_marker ''B'')]"

definition argument_options :: "(string list, string list, string) decotype" where
  "argument_options = [(''A'', argument_marker ''A''), (''B'', argument_marker ''B'')]"

text \<open>
  Modelled from the spec: the \<^verbatim>\<open>open\<close> operation of a session handler, whose
  classes are not part of the sources. In the spec's words: \<^verbatim>\<open>open(name, payload)\<close>
  inserts into \<^verbatim>\<open>sessions\<close>, fails with DuplicateSessionError if \<^verbatim>\<open>name\<close> is
  already present, and sets \<^verbatim>\<open>current\<close>. It is given as the keyword function of the
  handler class named \<open>h\<close>, taking the two arguments \<^verbatim>\<open>[name, payload]\<close>, and
  it writes the state that the session properties of the library class read.
\<close>

definition open_session :: "string \<Rightarrow> (string list, string list, string) pyfunc" where
  "open_session h =
     \<lparr>func_name = ''open_session'', func_doc = ''Opens a session.'',
      func_args = [''name'', ''payload''],
      body = (\<lambda>self args st.
        case args of
          [name, payload] \<Rightarrow>
            if name \<in> fst ` set (sessions (st h))
            then (Inl (SessionError h ''Duplicate session.''), st)
            else (Inr [],
                  st(h := \<lparr>sessions = sessions (st h) @ [(name, payload)],
                           session = Some payload\<rparr>))
        | _ \<Rightarrow> (Inl (TypeError ''open_session''), st))\<rparr>"

definition Connection :: "(string list, string list, string) session_handler" where
  "Connection =
     \<lparr>sh_name = ''Connection'', identifier_name = ''connection'',
      plural_identifier_name = ''connections'',
      sh_keywords = [(''open_connection'', open_session ''Connection'')]\<rparr>"

text \<open>
  A library class on which the session handler \<open>Connection\<close> is declared, and an
  object store in which the class's keyword table, the object at address 0, holds the
  keyword of the handler.
\<close>

definition ConnectionLibrary :: "(string list, string list, string) libclass" where
  "ConnectionLibrary =
     \<lparr>cls_name = ''TestLibrary'', cls_keywords = 0,
      context_handlers = [],
      session_handlers = [(''Connection'', Connection)]\<rparr>"

definition library_world :: "(string list, string list, string) world" where
  "library_world =
     \<lparr>next_addr = 1,
      class_tables = (\<lambda>a. [])(0 := [(''open_connection'', open_session ''Connection'')]),
      bound_tables = (\<lambda>a. [])\<rparr>"

text \<open>A keyword that records how it was invoked, for the shell magics.\<close>

datatype invocation = Called "pytext list" | Debugged "pytext list"

definition tracing_keyword :: "invocation shell_keyword" where
  "tracing_keyword = \<lparr>call = Called, debug = Debugged\<rparr>"

text \<open>
  A robot of two libraries for the remote server: \<open>TestRobot.Import\<close> appends the
  named library, a library is the list of its keyword names, and every keyword
  returns its own name.
\<close>

definition named_keyword :: "string \<Rightarrow> remote_keyword" where
  "named_keyword name =
     \<lparr>rk_call = (\<lambda>params. Inr (PyStr name)), rk_repr = name, rk_doc = ''Documentation.''\<rparr>"

definition plain_api :: "(string list) robot_api" where
  "plain_api =
     \<lparr>initial_libraries = [],
      robot_Import = (\<lambda>lib self.
         Inr (self\<lparr>libraries := AList.update lib [lib @ ''Keyword''] (libraries self)\<rparr>)),
      robot_getitem = (\<lambda>self name.
         if name \<in> set (concat (map snd (libraries self))) then Inr (named_keyword name)
         else Inl (KeyError name)),
      lib_dir = (\<lambda>lib. lib),
      base_functions = [(''get_keyword_names'', (\<lambda>params. Inr PyNone))],
      introspection_functions = [(''system.listMethods'', (\<lambda>params. Inr PyNone))]\<rparr>"

text \<open>
  Two instances of that class, made one after the other, and the object store after
  both have been made.
\<close>

definition first_instance :: "(string list, string list, string) libinstance" where
  "first_instance = fst (instantiate ConnectionLibrary library_world)"

definition second_instance :: "(string list, string list, string) libinstance" where
  "second_instance =
     fst (instantiate ConnectionLibrary (snd (instantiate ConnectionLibrary library_world)))"

definition instances_world :: "(string list, string list, string) world" where
  "instances_world =
     snd (instantiate ConnectionLibrary (snd (instantiate ConnectionLibrary library_world)))"

text \<open>
  The robot that \<^verbatim>\<open>RemoteRobot(['LibB'], allow_import=['LibA'])\<close> constructs over
  these base classes, with keyword registration and introspection on.
\<close>

definition plain_robot :: "(string list) remote_robot" where
  "plain_robot =
     \<lparr>libraries = [(''LibB'', [''LibBKeyword''])],
      register_keywords = True, introspection = True,
      allow_import = Some [''LibA''],
      funcs = register_all (introspection_functions plain_api)
                (register_keyword ''LibBKeyword'' (named_keyword ''LibBKeyword'')
                   (register_all (base_functions plain_api) []))\<rparr>"

text \<open>
  Names that an instance of the decorator class has from \<^verbatim>\<open>object\<close> and from
  the object model, for the attribute access of a decorator.
\<close>

definition object_names :: "string \<Rightarrow> bool" where
  "object_names name =
     (name \<in> set [''__class__'', ''__dict__'', ''__doc__'', ''__module__'', ''__repr__'',
                  ''__str__'', ''__hash__'', ''__setattr__'', ''__delattr__'',
                  ''__getattribute__'', ''__new__'', ''__reduce__'', ''__reduce_ex__'',
                  ''__format__'', ''__sizeof__'', ''__subclasshook__'', ''__weakref__''])"

text \<open>
  Base classes whose \<open>TestRobot.Import\<close> records each library it is given together
  with the \<open>allow_import\<close> attribute that it finds on the robot at that moment, whose
  libraries have no keywords, and which register no function of their own.
\<close>

definition recording_api :: "(string list option) robot_api" where
  "recording_api =
     \<lparr>initial_libraries = [],
      robot_Import = (\<lambda>lib self.
         Inr (self\<lparr>libraries := libraries self @ [(lib, allow_import self)]\<rparr>)),
      robot_getitem = (\<lambda>self name. Inl (KeyError name)),
      lib_dir = (\<lambda>lib. []),
      base_functions = [],
      introspection_functions = []\<rparr>"

text \<open>What \<open>TestRobot.Import\<close> of \<open>plain_api\<close> does to the robot when it succeeds.\<close>

definition plain_import :: "string \<Rightarrow> (string list) remote_robot \<Rightarrow> (string list) remote_robot" where
  "plain_import lib self =
     self\<lparr>libraries := AList.update lib [lib @ ''Keyword''] (libraries self)\<rparr>"

text \<open>
  Base classes like those of \<open>plain_api\<close>, except that \<open>TestRobot.Import\<close> fails
  for the library named \<open>Missing\<close>.
\<close>

definition partial_api :: "(string list) robot_api" where
  "partial_api =
     plain_api\<lparr>robot_Import := (\<lambda>lib self.
        if lib = ''Missing'' then Inl (RuntimeError ''Missing'')
        else Inr (plain_import lib self))\<rparr>"

text \<open>
  The robot that \<^verbatim>\<open>RemoteRobot(['LibB', 'LibC'], allow_import=['LibA'])\<close>
  constructs over the base classes of \<open>plain_api\<close>.
\<close>

definition two_library_robot :: "(string list) remote_robot" where
  "two_library_robot =
     \<lparr>libraries = [(''LibB'', [''LibBKeyword'']), (''LibC'', [''LibCKeyword''])],
      register_keywords = True, introspection = True,
      allow_import = Some [''LibA''],
      funcs = register_all (introspection_functions plain_api)
                (register_keyword ''LibCKeyword'' (named_keyword ''LibCKeyword'')
                   (register_keyword ''LibBKeyword'' (named_keyword ''LibBKeyword'')
                      (register_all (base_functions plain_api) [])))\<rparr>"

section \<open>Properties of the keyword decorator\<close>

lemma check_options_first_unregistered:
  "\<not> hasattr_option T name \<Longrightarrow> check_options T opts = None
   \<Longrightarrow> check_options T (opts @ name # rest) = Some (InvalidKeywordOption name)"
  by (induction opts) (auto split: if_splits)

text \<open>
  The constructor of the decorator is where \<open>InvalidKeywordOption\<close> comes from: it is
  raised for the first option name that is not registered.
\<close>

lemma constructor_invalid_option:
  "\<not> hasattr_option T name \<Longrightarrow> check_options T opts = None
   \<Longrightarrow> KeywordDecoratorType_init T lib (opts @ name # rest) = Inl (InvalidKeywordOption name)"
  by (simp add: KeywordDecoratorType_init_def check_options_first_unregistered)

lemma result_marker_twice:
  "body func self args st = (Inr res, st')
   \<Longrightarrow> body (result_marker a (result_marker b func)) self args st = (Inr (res @ [b, a]), st')"
  by (simp add: result_marker_def)

text \<open>
  In general the options are applied in the stored order, the first stored option to
  the raw function.
\<close>

lemma apply_options_fold:
  "\<forall>n \<in> set opts. map_of T n \<noteq> None
   \<Longrightarrow> apply_options T opts func = Inr (fold (\<lambda>n. the (map_of T n)) opts func)"
  by (induction opts arbitrary: func) auto

text \<open>
  Claim C1, as the code has it. Starting from a decorator without options, adding the
  registered option \<open>A\<close> and then the registered option \<open>B\<close> stores the options as
  \<open>[B, A]\<close>. Finalizing on a raw function applies \<open>B\<close>'s transformation to the raw
  function first and \<open>A\<close>'s transformation to the outcome: the decorated function is
  \<open>optA (optB func)\<close>, so the most recently added option is the innermost wrapper and
  the option added first is the outermost one. When both options append a marker to the
  result of the function they wrap, the markers come out in the order \<open>b, a\<close>.
\<close>

theorem option_chain_order:
  assumes "map_of T A = Some optA" and "map_of T B = Some optB"
  shows "decorator_getattr T \<lparr>librarycls = lib, options = []\<rparr> A w
           = (Inr \<lparr>librarycls = lib, options = [A]\<rparr>, w)
       \<and> decorator_getattr T \<lparr>librarycls = lib, options = [A]\<rparr> B w
           = (Inr \<lparr>librarycls = lib, options = [B, A]\<rparr>, w)
       \<and> fst (decorator_call T \<lparr>librarycls = lib, options = [B, A]\<rparr> func name w)
           = Inr (optA (optB func))
       \<and> (optA = result_marker a \<and> optB = result_marker b
            \<and> body func self args st = (Inr res, st')
          \<longrightarrow> body (optA (optB func)) self args st = (Inr (res @ [b, a]), st'))"
  using assms
  by (simp add: decorator_getattr_def hasattr_option_def KeywordDecoratorType_init_def
      decorator_call_def result_marker_twice)

theorem option_chain_order_witness:
  "map_of result_options ''A'' = Some (result_marker ''A'')
   \<and> map_of result_options ''B'' = Some (result_marker ''B'')
   \<and> fst (decorator_call result_options \<lparr>librarycls = 0, options = [''B'', ''A'']\<rparr>
            echo None empty_world)
       = Inr (result_marker ''A'' (result_marker ''B'' echo))
   \<and> body echo 0 [] empty_store = (Inr [], empty_store)
   \<and> body (result_marker ''A'' (result_marker ''B'' echo)) 0 [] empty_store
       = (Inr [''B'', ''A''], empty_store)"
  using option_chain_order
    [of result_options "''A''" "result_marker ''A''" "''B''" "result_marker ''B''"
        0 empty_world echo None "''A''" "''B''" 0 "[]" empty_store "[]" empty_store]
  by (simp add: result_options_def echo_def)

text \<open>
  The claim as stated fails: were \<open>B\<close> the outermost wrapper, the decorated function
  would be \<open>optB (optA func)\<close>. With options whose wrappers mark the arguments on entry,
  the wrapper of \<open>A\<close> runs first.
\<close>

theorem outermost_option_counterexample:
  "fst (decorator_call argument_options \<lparr>librarycls = 0, options = [''B'', ''A'']\<rparr>
          echo None empty_world)
     \<noteq> Inr (argument_marker ''B'' (argument_marker ''A'' echo))"
proof
  assume "fst (decorator_call argument_options \<lparr>librarycls = 0, options = [''B'', ''A'']\<rparr>
                 echo None empty_world)
            = Inr (argument_marker ''B'' (argument_marker ''A'' echo))"
  then have "argument_marker ''A'' (argument_marker ''B'' echo)
               = argument_marker ''B'' (argument_marker ''A'' echo)"
    by (simp add: decorator_call_def argument_options_def)
  then have "body (argument_marker ''A'' (argument_marker ''B'' echo)) 0 [] empty_store
               = body (argument_marker ''B'' (argument_marker ''A'' echo)) 0 [] empty_store"
    by simp
  then show False
    by (simp add: argument_marker_def echo_def)
qed

text \<open>
  Which names the normal lookup resolves on a decorator, and what the attribute access
  returns for the names that are not options: the two instance attributes and the two
  properties have a value, whether or not an option of that name is registered.
\<close>

lemma normal_lookup_None_iff:
  "normal_lookup inherited T self name = None \<longleftrightarrow>
     name \<notin> set [''no_options'', ''reset_options'', ''librarycls'', ''options'',
                  ''__init__'', ''__getattr__'', ''__call__'']
     \<and> \<not> inherited name
     \<and> \<not> (startswith name ''option_'' \<and> hasattr_option T (drop (length ''option_'') name))"
  by (auto simp: normal_lookup_def hasattr_option_def startswith_def split: option.splits)

lemma attributes_of_the_decorator:
  "decorator_attribute inherited T self ''options'' w = (Inr (OptionNames (options self)), w)"
  "decorator_attribute inherited T self ''librarycls'' w
     = (Inr (LibraryClass (librarycls self)), w)"
  "decorator_attribute inherited T self ''no_options'' w
     = (Inr (Decorator \<lparr>librarycls = librarycls self, options = []\<rparr>), w)"
  "decorator_attribute inherited T self ''reset_options'' w
     = (Inr (Decorator \<lparr>librarycls = librarycls self, options = []\<rparr>), w)"
  by (simp_all add: decorator_attribute_def normal_lookup_def no_options_def reset_options_def
      KeywordDecoratorType_init_def)

text \<open>
  For a registered option name that the normal lookup does not resolve, the attribute
  access is the constructor call of \<^verbatim>\<open>__getattr__\<close>.
\<close>

lemma registered_option_attribute:
  assumes "hasattr_option T name" and "normal_lookup inherited T self name = None"
  shows "decorator_attribute inherited T self name w
           = (map_sum id Decorator
                (KeywordDecoratorType_init T (librarycls self) (name # options self)), w)"
  using assms
  by (auto simp: decorator_attribute_def decorator_getattr_def map_sum_def split: sum.splits)

text \<open>
  Claim C3, as the code has it. Take any decorator and any name that is not registered
  as an option on the decorator's type, and that the normal attribute lookup does not
  resolve: the name is none of \<open>no_options\<close>, \<open>reset_options\<close>, \<open>librarycls\<close>,
  \<open>options\<close>, is no method of the class and nothing inherited from \<^verbatim>\<open>object\<close>,
  and is not \<open>option_\<close> followed by a registered option name. Then the attribute access
  fails with \<open>AttributeError\<close> carrying the name, raised by \<^verbatim>\<open>__getattr__\<close>, and
  the object store, with every keyword table in it, is what it was before the access.
\<close>

theorem unregistered_option_attribute_error:
  assumes "\<not> hasattr_option T name"
    and "name \<notin> set [''no_options'', ''reset_options'', ''librarycls'', ''options'',
                      ''__init__'', ''__getattr__'', ''__call__'']"
    and "\<not> inherited name"
    and "\<not> (startswith name ''option_'' \<and> hasattr_option T (drop (length ''option_'') name))"
  shows "decorator_attribute inherited T self name w = (Inl (AttributeError name), w)
       \<and> decorator_getattr T self name w = (Inl (AttributeError name), w)"
proof -
  have "normal_lookup inherited T self name = None"
    using assms(2,3,4) by (simp only: normal_lookup_None_iff) simp
  with assms(1) show ?thesis
    by (simp add: decorator_attribute_def decorator_getattr_def)
qed

theorem unregistered_option_attribute_error_witness:
  "\<not> hasattr_option result_options ''nonexistent''
   \<and> ''nonexistent'' \<notin> set [''no_options'', ''reset_options'', ''librarycls'', ''options'',
                      ''__init__'', ''__getattr__'', ''__call__'']
   \<and> \<not> object_names ''nonexistent''
   \<and> \<not> (startswith ''nonexistent'' ''option_''
          \<and> hasattr_option result_options (drop (length ''option_'') ''nonexistent''))
   \<and> decorator_attribute object_names result_options \<lparr>librarycls = 0, options = [''A'']\<rparr>
         ''nonexistent'' library_world
       = (Inl (AttributeError ''nonexistent''), library_world)"
  using unregistered_option_attribute_error
    [of result_options "''nonexistent''" object_names "\<lparr>librarycls = 0, options = [''A'']\<rparr>"
        library_world]
  by (simp add: hasattr_option_def result_options_def object_names_def startswith_def)

text \<open>
  The claim as stated fails: the exception of the attribute access is not
  \<open>InvalidKeywordOption\<close>, neither that of \<^verbatim>\<open>__getattr__\<close> nor that of the
  access as a whole.
\<close>

theorem invalid_option_error_counterexample:
  "\<not> hasattr_option result_options ''nonexistent''
   \<and> fst (decorator_getattr result_options \<lparr>librarycls = 0, options = [''A'']\<rparr>
            ''nonexistent'' library_world)
       \<noteq> Inl (InvalidKeywordOption ''nonexistent'')
   \<and> fst (decorator_attribute object_names result_options \<lparr>librarycls = 0, options = [''A'']\<rparr>
            ''nonexistent'' library_world)
       \<noteq> Inl (InvalidKeywordOption ''nonexistent'')"
  by (simp add: decorator_getattr_def decorator_attribute_def hasattr_option_def
      result_options_def normal_lookup_def object_names_def startswith_def)

section \<open>Properties of the test library base\<close>

lemma bind_keywords_names:
  "fst ` set (bind_keywords self fs table) = fst ` set table \<union> fst ` set fs"
proof (induction self fs table rule: bind_keywords.induct)
  case (1 self table)
  show ?case by simp
next
  case (2 self name func rest table)
  have "fst ` set (bind_keywords self ((name, func) # rest) table)
          = insert name (fst ` set table) \<union> fst ` set rest"
    using "2.IH" by (simp add: dom_update)
  then show ?case by auto
qed

lemma instantiate_fields:
  assumes "instantiate c w = (i, w')"
  shows "inst_keywords i = Some (Suc (next_addr w))"
    and "cls i = c"
    and "next_addr w' = Suc (Suc (next_addr w))"
    and "class_tables w' = class_tables w"
    and "bound_tables w' = (bound_tables w)(Suc (next_addr w) :=
           bind_keywords (next_addr w) (class_tables w (cls_keywords c)) [])"
  using assms
  by (auto simp: instantiate_def new_object_def TestLibraryType_init_def Let_def)

lemma instantiate_Connection:
  "instantiate ConnectionLibrary library_world =
     (\<lparr>self_addr = 1, cls = ConnectionLibrary, inst_keywords = Some 2, contexts = []\<rparr>,
      \<lparr>next_addr = 3,
       class_tables = (\<lambda>a. [])(0 := [(''open_connection'', open_session ''Connection'')]),
       bound_tables = (\<lambda>a. [])(2 := [(''open_connection'',
          \<lparr>kw_name = ''open_connection'', kw_func = open_session ''Connection'',
           libinstance = 1\<rparr>)])\<rparr>)"
  by (simp add: instantiate_def new_object_def TestLibraryType_init_def library_world_def
      ConnectionLibrary_def Let_def numeral_3_eq_3 numeral_2_eq_2)

lemma instantiate_Connection_again:
  "instantiate ConnectionLibrary (snd (instantiate ConnectionLibrary library_world)) =
     (\<lparr>self_addr = 3, cls = ConnectionLibrary, inst_keywords = Some 4, contexts = []\<rparr>,
      \<lparr>next_addr = 5,
       class_tables = (\<lambda>a. [])(0 := [(''open_connection'', open_session ''Connection'')]),
       bound_tables = (\<lambda>a. [])
         (2 := [(''open_connection'',
                 \<lparr>kw_name = ''open_connection'', kw_func = open_session ''Connection'',
                  libinstance = 1\<rparr>)],
          4 := [(''open_connection'',
                 \<lparr>kw_name = ''open_connection'', kw_func = open_session ''Connection'',
                  libinstance = 3\<rparr>)])\<rparr>)"
  by (simp add: instantiate_Connection)
     (simp add: instantiate_def new_object_def TestLibraryType_init_def
      ConnectionLibrary_def Let_def eval_nat_numeral)

lemma first_instance_eq:
  "first_instance =
     \<lparr>self_addr = 1, cls = ConnectionLibrary, inst_keywords = Some 2, contexts = []\<rparr>"
  by (simp add: first_instance_def instantiate_Connection)

lemma second_instance_eq:
  "second_instance =
     \<lparr>self_addr = 3, cls = ConnectionLibrary, inst_keywords = Some 4, contexts = []\<rparr>"
  by (simp add: second_instance_def instantiate_Connection_again)

lemma instances_world_eq:
  "instances_world =
     \<lparr>next_addr = 5,
      class_tables = (\<lambda>a. [])(0 := [(''open_connection'', open_session ''Connection'')]),
      bound_tables = (\<lambda>a. [])
        (2 := [(''open_connection'',
                \<lparr>kw_name = ''open_connection'', kw_func = open_session ''Connection'',
                 libinstance = 1\<rparr>)],
         4 := [(''open_connection'',
                \<lparr>kw_name = ''open_connection'', kw_func = open_session ''Connection'',
                 libinstance = 3\<rparr>)])\<rparr>"
  by (simp add: instances_world_def instantiate_Connection_again)

lemma open_through_first:
  "run_keyword instances_world first_instance ''open_connection'' [''a'', ''p''] empty_store
     = (Inr [],
        empty_store(''Connection'' := \<lparr>sessions = [(''a'', ''p'')], session = Some ''p''\<rparr>))"
  by (simp add: run_keyword_def check_keywords_st_def first_instance_eq instances_world_eq
      self_keywords_def ConnectionLibrary_def keywords_getitem_def open_session_def
      empty_store_def)

text \<open>
  An object whose constructor has not run reads the class's table as its own; an
  instance made by the base constructor of a class whose table is allocated does not.
\<close>

lemma new_object_unbound:
  "new_object c w = (self, w') \<Longrightarrow> self_keywords self = cls_keywords (cls self)"
  by (auto simp: new_object_def self_keywords_def)

lemma instantiate_bound:
  assumes "cls_keywords c < next_addr w" and "instantiate c w = (self, w')"
  shows "self_keywords self \<noteq> cls_keywords (cls self)"
  using assms(1) instantiate_fields(1,2) [OF assms(2)]
  by (simp add: self_keywords_def)

text \<open>
  Claim C2, as the code has it. Instantiating a library class twice gives two instances
  whose keyword tables are two distinct objects, both distinct from the class's table,
  with the same set of names. The session state is not held by the instances: for every
  session handler class declared on the library, the running sessions and the current
  session read through one instance are those read through the other, in every state of
  the handler class, in particular in the state that a keyword run through the first
  instance leaves.
\<close>

theorem instances_share_session_state:
  assumes "cls_keywords c < next_addr w"
    and "instantiate c w = (i1, w1)"
    and "instantiate c w1 = (i2, w2)"
    and "(hname, h) \<in> set (session_handlers c)"
  shows "self_keywords i1 \<noteq> self_keywords i2
       \<and> self_keywords i1 \<noteq> cls_keywords c \<and> self_keywords i2 \<noteq> cls_keywords c
       \<and> set (map fst (bound_tables w2 (self_keywords i1)))
           = set (map fst (bound_tables w2 (self_keywords i2)))
       \<and> sessions_property h i2 st = sessions_property h i1 st
       \<and> session_property h i2 st = session_property h i1 st
       \<and> sessions_property h i2 (snd (run_keyword w2 i1 name args st))
           = sessions_property h i1 (snd (run_keyword w2 i1 name args st))
       \<and> session_property h i2 (snd (run_keyword w2 i1 name args st))
           = session_property h i1 (snd (run_keyword w2 i1 name args st))"
proof -
  note f1 = instantiate_fields [OF assms(2)]
  note f2 = instantiate_fields [OF assms(3)]
  have k1: "self_keywords i1 = Suc (next_addr w)"
    by (simp add: self_keywords_def f1)
  have k2: "self_keywords i2 = Suc (Suc (Suc (next_addr w)))"
    by (simp add: self_keywords_def f2 f1)
  have names: "set (map fst (bound_tables w2 (self_keywords i1)))
           = set (map fst (bound_tables w2 (self_keywords i2)))"
    by (simp add: k1 k2 f1 f2 bind_keywords_names)
  show ?thesis
    using assms(1) names
    by (simp add: k1 k2 sessions_property_def session_property_def)
qed

theorem instances_share_session_state_witness:
  "cls_keywords ConnectionLibrary < next_addr library_world
   \<and> (''Connection'', Connection) \<in> set (session_handlers ConnectionLibrary)
   \<and> self_keywords first_instance = 2 \<and> self_keywords second_instance = 4
   \<and> self_keywords first_instance \<noteq> self_keywords second_instance
   \<and> set (map fst (bound_tables instances_world (self_keywords first_instance)))
       = set (map fst (bound_tables instances_world (self_keywords second_instance)))
   \<and> session_property Connection second_instance
        (snd (run_keyword instances_world first_instance ''open_connection'' [''a'', ''p'']
               empty_store))
       = session_property Connection first_instance
        (snd (run_keyword instances_world first_instance ''open_connection'' [''a'', ''p'']
               empty_store))"
proof -
  have h1: "cls_keywords ConnectionLibrary < next_addr library_world"
    by (simp add: ConnectionLibrary_def library_world_def)
  have h2: "instantiate ConnectionLibrary library_world
              = (first_instance, snd (instantiate ConnectionLibrary library_world))"
    by (simp add: first_instance_def)
  have h3: "instantiate ConnectionLibrary (snd (instantiate ConnectionLibrary library_world))
              = (second_instance, instances_world)"
    by (simp add: second_instance_def instances_world_def)
  have h4: "(''Connection'', Connection) \<in> set (session_handlers ConnectionLibrary)"
    by (simp add: ConnectionLibrary_def)
  show ?thesis
    using h1 h4 instances_share_session_state [OF h1 h2 h3 h4]
    by (simp add: first_instance_eq second_instance_eq self_keywords_def)
qed

text \<open>
  The claim as stated fails: before any session is opened the second instance sees no
  session; after a session has been opened through the first instance, the second
  instance sees it, as a running session and as the current one.
\<close>

theorem independent_sessions_counterexample:
  "sessions_property Connection second_instance empty_store = []
   \<and> session_property Connection second_instance empty_store
       = Inl (SessionError ''Connection'' ''No active session.'')
   \<and> sessions_property Connection second_instance
        (snd (run_keyword instances_world first_instance ''open_connection'' [''a'', ''p'']
               empty_store))
       = [(''a'', ''p'')]
   \<and> session_property Connection second_instance
        (snd (run_keyword instances_world first_instance ''open_connection'' [''a'', ''p'']
               empty_store))
       = Inr ''p''"
  by (simp add: open_through_first)
     (simp add: sessions_property_def session_property_def Connection_def empty_store_def)

text \<open>
  Claim C4. For every instance whose \<open>keywords\<close> is still the very table of its class,
  each of \<open>get_keyword_names\<close>, \<open>run_keyword\<close>, \<open>get_keyword_documentation\<close> and
  \<open>get_keyword_arguments\<close>, and also the attribute access to a keyword and \<open>dir\<close>, fails
  with the \<open>RuntimeError\<close> of \<open>check_keywords\<close> (the spec's NotReadyError) and returns
  no result; \<open>run_keyword\<close> leaves the state of the session handlers untouched.
\<close>

theorem unbound_keywords_not_ready:
  assumes "self_keywords self = cls_keywords (cls self)"
  shows "get_keyword_names w self = Inl (RuntimeError (no_keywords_message (cls_name (cls self))))
       \<and> run_keyword w self name args st
           = (Inl (RuntimeError (no_keywords_message (cls_name (cls self)))), st)
       \<and> get_keyword_documentation w self name
           = Inl (RuntimeError (no_keywords_message (cls_name (cls self))))
       \<and> get_keyword_arguments w self name
           = Inl (RuntimeError (no_keywords_message (cls_name (cls self))))
       \<and> library_getattr own_attribute attr_to_key w self name
           = Inl (RuntimeError (no_keywords_message (cls_name (cls self))))
       \<and> library_dir key_to_attr w self
           = Inl (RuntimeError (no_keywords_message (cls_name (cls self))))"
  using assms
  by (simp add: get_keyword_names_def run_keyword_def get_keyword_documentation_def
      get_keyword_arguments_def library_getattr_def library_dir_def check_keywords_def
      check_keywords_st_def)

theorem unbound_keywords_not_ready_witness:
  "self_keywords (fst (new_object ConnectionLibrary library_world))
     = cls_keywords (cls (fst (new_object ConnectionLibrary library_world)))
   \<and> get_keyword_names library_world (fst (new_object ConnectionLibrary library_world))
       = Inl (RuntimeError (no_keywords_message ''TestLibrary''))
   \<and> run_keyword library_world (fst (new_object ConnectionLibrary library_world))
         ''open_connection'' [''a'', ''p''] empty_store
       = (Inl (RuntimeError (no_keywords_message ''TestLibrary'')), empty_store)
   \<and> get_keyword_documentation library_world
         (fst (new_object ConnectionLibrary library_world)) ''open_connection''
       = Inl (RuntimeError (no_keywords_message ''TestLibrary''))
   \<and> library_getattr (\<lambda>name. if name = ''__getitem__'' then Some () else None) id
         library_world (fst (new_object ConnectionLibrary library_world)) ''open_connection''
       = Inl (RuntimeError (no_keywords_message ''TestLibrary''))
   \<and> library_dir id library_world (fst (new_object ConnectionLibrary library_world))
       = Inl (RuntimeError (no_keywords_message ''TestLibrary''))"
  using unbound_keywords_not_ready
    [of "fst (new_object ConnectionLibrary library_world)" library_world
        "''open_connection''" "[''a'', ''p'']" empty_store
        "\<lambda>name. if name = ''__getitem__'' then Some () else None" id id]
  by (simp add: new_object_def self_keywords_def ConnectionLibrary_def)

text \<open>
  Claim C6. For every session handler class declared on a library, the accessor of the
  current session fails with the handler's own \<open>SessionError\<close> and the message
  \<open>No active session.\<close> when the handler's current session is unset, and returns the
  current session otherwise.
\<close>

theorem current_session_accessor:
  "(session (st (sh_name h)) = None
      \<longrightarrow> session_property h self st = Inl (SessionError (sh_name h) ''No active session.''))
   \<and> (\<forall>s. session (st (sh_name h)) = Some s \<longrightarrow> session_property h self st = Inr s)"
  by (simp add: session_property_def)

theorem current_session_accessor_witness:
  "session (empty_store (sh_name Connection)) = None
   \<and> session_property Connection first_instance empty_store
       = Inl (SessionError ''Connection'' ''No active session.'')
   \<and> session ((empty_store(''Connection'' :=
          \<lparr>sessions = [(''a'', ''p'')], session = Some ''p''\<rparr>)) (sh_name Connection))
       = Some ''p''
   \<and> session_property Connection first_instance
        (empty_store(''Connection'' := \<lparr>sessions = [(''a'', ''p'')], session = Some ''p''\<rparr>))
       = Inr ''p''"
  using current_session_accessor [of empty_store Connection first_instance]
    current_session_accessor
      [of "empty_store(''Connection'' := \<lparr>sessions = [(''a'', ''p'')], session = Some ''p''\<rparr>)"
          Connection first_instance]
  by (simp add: empty_store_def Connection_def)

text \<open>
  Claim C7. For every instance whose keywords table is its own (the base constructor
  has run), \<open>get_keyword_documentation\<close> returns the empty string for \<open>__intro__\<close> and
  for \<open>__init__\<close>, whatever the table holds; for every other name it returns the doc
  string of the keyword stored under the name, and fails with \<open>KeyError\<close> (the spec's
  NotFoundError) when the table has no such name.
\<close>

theorem documentation_of_bound_library:
  assumes "self_keywords self \<noteq> cls_keywords (cls self)"
  shows "get_keyword_documentation w self ''__intro__'' = Inr []
       \<and> get_keyword_documentation w self ''__init__'' = Inr []
       \<and> (name \<noteq> ''__intro__'' \<and> name \<noteq> ''__init__'' \<longrightarrow>
            get_keyword_documentation w self name
              = (case map_of (bound_tables w (self_keywords self)) name of
                   None \<Rightarrow> Inl (KeyError name)
                 | Some kw \<Rightarrow> Inr (func_doc (kw_func kw))))"
  using assms
  by (simp add: get_keyword_documentation_def check_keywords_def keywords_getitem_def
      split: option.split)

theorem documentation_of_bound_library_witness:
  "self_keywords first_instance \<noteq> cls_keywords (cls first_instance)
   \<and> get_keyword_documentation instances_world first_instance ''__intro__'' = Inr []
   \<and> get_keyword_documentation instances_world first_instance ''__init__'' = Inr []
   \<and> get_keyword_documentation instances_world first_instance ''open_connection''
       = Inr ''Opens a session.''
   \<and> get_keyword_documentation instances_world first_instance ''close_connection''
       = Inl (KeyError ''close_connection'')"
  using documentation_of_bound_library
      [of first_instance instances_world "''open_connection''"]
    documentation_of_bound_library
      [of first_instance instances_world "''close_connection''"]
  by (simp add: first_instance_eq instances_world_eq self_keywords_def ConnectionLibrary_def
      open_session_def)

section \<open>Properties of the shell magics\<close>

text \<open>
  What the string methods compute: a split returns at least one token and leaves no
  separator in a token; a strip leaves a text that neither starts nor ends with a
  stripped character.
\<close>

lemma split_where_nonempty: "split_where P s \<noteq> []"
  by (induction s) (auto split: list.splits)

lemma split_where_tokens: "\<forall>t \<in> set (split_where P s). \<forall>c \<in> set t. \<not> P c"
  by (induction s) (auto split: list.splits)

lemma last_dropWhile_nonempty: "dropWhile P xs \<noteq> [] \<Longrightarrow> last (dropWhile P xs) = last xs"
  by (metis takeWhile_dropWhile_id last_appendR)

lemma strip_where_ends:
  assumes "strip_where P s \<noteq> []"
  shows "\<not> P (hd (strip_where P s)) \<and> \<not> P (last (strip_where P s))"
proof -
  let ?d = "dropWhile P s"
  let ?r = "dropWhile P (rev ?d)"
  have r_ne: "?r \<noteq> []" using assms by (simp add: strip_where_def)
  then have 1: "\<not> P (hd ?r)" by (rule hd_dropWhile)
  have d_ne: "?d \<noteq> []" using r_ne by (metis dropWhile.simps(1) rev.simps(1))
  then have 2: "\<not> P (hd ?d)" by (rule hd_dropWhile)
  have "last ?r = last (rev ?d)" using r_ne by (rule last_dropWhile_nonempty)
  also have "\<dots> = hd ?d" using d_ne by (simp only: last_rev)
  finally have 3: "\<not> P (last ?r)" using 2 by simp
  have "hd (strip_where P s) = last ?r" "last (strip_where P s) = hd ?r"
    using r_ne by (simp_all only: strip_where_def hd_rev last_rev)
  with 1 3 show ?thesis by simp
qed

text \<open>
  The string methods meet the descriptions \<open>strips_to\<close> and \<open>splits_into\<close>, and
  each description has one solution only: it determines the stripped text, and the
  list of tokens.
\<close>

lemma strip_where_strips_to: "strips_to P s (strip_where P s)"
proof -
  let ?l = "takeWhile P s"
  let ?d = "dropWhile P s"
  let ?r = "rev (takeWhile P (rev ?d))"
  have d: "?d = strip_where P s @ ?r"
    unfolding strip_where_def by (metis rev_append rev_rev_ident takeWhile_dropWhile_id)
  have "s = ?l @ ?d" by simp
  with d have s: "s = ?l @ strip_where P s @ ?r" by simp
  have l: "\<forall>c \<in> set ?l. P c" by (auto dest: set_takeWhileD)
  have r: "\<forall>c \<in> set ?r. P c" by (auto dest: set_takeWhileD)
  from s l r strip_where_ends [of P s] show ?thesis
    unfolding strips_to_def by blast
qed

lemma strips_to_unique:
  assumes "strips_to P s t"
  shows "t = strip_where P s"
proof -
  from assms obtain l r where s: "s = l @ t @ r" and l: "\<forall>c \<in> set l. P c"
    and r: "\<forall>c \<in> set r. P c" and ends: "t \<noteq> [] \<longrightarrow> \<not> P (hd t) \<and> \<not> P (last t)"
    unfolding strips_to_def by blast
  show ?thesis
  proof (cases "t = []")
    case True
    then have "\<forall>c \<in> set s. P c" using s l r by auto
    then have "dropWhile P s = []" by (metis dropWhile_eq_Nil_conv)
    then have "strip_where P s = []"
      unfolding strip_where_def by (simp only: rev.simps dropWhile.simps)
    with True show ?thesis by simp
  next
    case False
    then have h: "\<not> P (hd t)" and la: "\<not> P (last t)" using ends by auto
    have "dropWhile P s = dropWhile P (t @ r)"
      unfolding s using l by (simp add: dropWhile_append2)
    also have "\<dots> = t @ r" using False h by (cases t) auto
    finally have d: "dropWhile P s = t @ r" .
    have "dropWhile P (rev (t @ r)) = dropWhile P (rev r @ rev t)" by simp
    also have "\<dots> = dropWhile P (rev t)" using r by (simp add: dropWhile_append)
    also have "\<dots> = rev t" using False la by (cases "rev t") (auto simp: last_rev [symmetric] simp del: last_rev)
    finally show ?thesis by (simp add: strip_where_def d)
  qed
qed

lemma split_where_splits_into: "splits_into P s (split_where P s)"
proof -
  have "\<exists>seps. length seps = length (tl (split_where P s)) \<and> (\<forall>c \<in> set seps. P c)
          \<and> s = hd (split_where P s) @ concat (map2 (#) seps (tl (split_where P s)))"
  proof (induction s)
    case Nil
    show ?case by simp
  next
    case (Cons c cs)
    then obtain seps where len: "length seps = length (tl (split_where P cs))"
      and ps: "\<forall>c \<in> set seps. P c"
      and cs: "cs = hd (split_where P cs) @ concat (map2 (#) seps (tl (split_where P cs)))"
      by blast
    obtain t ts where tts: "split_where P cs = t # ts"
      using split_where_nonempty [of P cs] by (cases "split_where P cs") auto
    show ?case
    proof (cases "P c")
      case True
      have "length (c # seps) = length (tl (split_where P (c # cs)))"
        using True len tts by simp
      moreover have "\<forall>x \<in> set (c # seps). P x" using True ps by simp
      moreover have "c # cs = hd (split_where P (c # cs))
                        @ concat (map2 (#) (c # seps) (tl (split_where P (c # cs))))"
        using True cs tts by simp
      ultimately show ?thesis by blast
    next
      case False
      have "length seps = length (tl (split_where P (c # cs)))"
        using False len tts by simp
      moreover have "c # cs = hd (split_where P (c # cs))
                        @ concat (map2 (#) seps (tl (split_where P (c # cs))))"
        using False cs tts by simp
      ultimately show ?thesis using ps by blast
    qed
  qed
  then show ?thesis
    unfolding splits_into_def using split_where_nonempty [of P s] split_where_tokens [of P s]
    by blast
qed

lemma split_where_clean_prefix:
  "\<forall>c \<in> set t. \<not> P c \<Longrightarrow>
   split_where P (t @ rest) = (t @ hd (split_where P rest)) # tl (split_where P rest)"
proof (induction t)
  case Nil
  then show ?case using split_where_nonempty [of P rest] by simp
next
  case (Cons a t)
  then show ?case by simp
qed

lemma split_where_pieces:
  assumes "length seps = length ts" and "\<forall>c \<in> set seps. P c"
    and "\<forall>t \<in> set (t0 # ts). \<forall>c \<in> set t. \<not> P c"
  shows "split_where P (t0 @ concat (map2 (#) seps ts)) = t0 # ts"
  using assms
proof (induction seps ts arbitrary: t0 rule: list_induct2)
  case Nil
  then show ?case using split_where_clean_prefix [of t0 P "[]"] by simp
next
  case (Cons c seps t ts)
  have rest: "split_where P (t @ concat (map2 (#) seps ts)) = t # ts"
    using Cons.IH [of t] Cons.prems by simp
  have "split_where P (t0 @ concat (map2 (#) (c # seps) (t # ts)))
          = split_where P (t0 @ (c # (t @ concat (map2 (#) seps ts))))" by simp
  also have "\<dots> = (t0 @ hd (split_where P (c # (t @ concat (map2 (#) seps ts)))))
                    # tl (split_where P (c # (t @ concat (map2 (#) seps ts))))"
    using Cons.prems by (intro split_where_clean_prefix) simp
  also have "\<dots> = t0 # t # ts" using Cons.prems rest by simp
  finally show ?case .
qed

lemma splits_into_unique:
  assumes "splits_into P s tokens"
  shows "tokens = split_where P s"
proof -
  from assms obtain seps where ne: "tokens \<noteq> []"
    and clean: "\<forall>t \<in> set tokens. \<forall>c \<in> set t. \<not> P c"
    and len: "length seps = length (tl tokens)" and ps: "\<forall>c \<in> set seps. P c"
    and s: "s = hd tokens @ concat (map2 (#) seps (tl tokens))"
    unfolding splits_into_def by blast
  from ne obtain t0 ts where tok: "tokens = t0 # ts" by (cases tokens) auto
  from split_where_pieces [of seps ts P t0] len ps clean s tok show ?thesis by simp
qed


lemma strips_each: "list_all2 (strips_to P) tokens (map (strip_where P) tokens)"
  by (simp add: list_all2_conv_all_nth strip_where_strips_to)

lemma starts_with_bracket_or_bar:
  "args_str \<noteq> [] \<Longrightarrow>
   list_ex (\<lambda>c. startswith args_str [c]) (literal ''[|'')
     \<longleftrightarrow> hd args_str = of_char CHR ''['' \<or> hd args_str = of_char CHR ''|''"
  by (cases args_str) (auto simp: startswith_def literal_def)

lemma strips_each_unique:
  "list_all2 (strips_to P) tokens args \<Longrightarrow> args = map (strip_where P) tokens"
  by (induction rule: list_all2_induct) (auto dest: strips_to_unique)

text \<open>The whitespace of the two string types, as ranges of code points.\<close>

lemma unicode_space_ranges:
  "whitespace Unicode c \<longleftrightarrow>
         c \<in> {0x09..0x0D} \<union> {0x1C..0x20} \<union> {0x85, 0xA0, 0x1680, 0x180E}
             \<union> {0x2000..0x200A} \<union> {0x2028, 0x2029, 0x202F, 0x205F, 0x3000}"
  unfolding whitespace_def unicode_space_def
  by (simp add: atLeastAtMost_upt upt_rec_numeral) blast

lemma bytes_space_ranges:
  "whitespace Str c \<longleftrightarrow> c \<in> {0x09..0x0D} \<union> {0x20}"
  unfolding whitespace_def bytes_space_def
  by (simp add: atLeastAtMost_upt upt_rec_numeral) blast

text \<open>
  Claim C8, as the code has it. Whitespace is that of the string type of the argument
  text: for a \<^verbatim>\<open>unicode\<close> text the code points \<open>0x09\<close> to \<open>0x0D\<close>, \<open>0x1C\<close> to
  \<open>0x20\<close>, \<open>0x85\<close>, \<open>0xA0\<close>, \<open>0x1680\<close>, \<open>0x180E\<close>, \<open>0x2000\<close> to \<open>0x200A\<close>,
  \<open>0x2028\<close>, \<open>0x2029\<close>, \<open>0x202F\<close>, \<open>0x205F\<close> and \<open>0x3000\<close>; for a byte string
  \<open>0x09\<close> to \<open>0x0D\<close> and \<open>0x20\<close>. For every non-empty argument text of a line
  magic: if the text starts with \<open>[\<close> or \<open>|\<close>, then the text without its leading and
  trailing \<open>[\<close>, \<open>|\<close> and \<open>]\<close> characters is cut at every \<open>|\<close>, each token is
  trimmed of its leading and trailing whitespace, and the trimmed tokens, empty ones
  included, are the positional arguments of the keyword's debug invocation; otherwise
  the text is cut at every whitespace character and the non-empty tokens are the
  positional arguments of the debug invocation. For every text block of a cell magic,
  the block is first stripped of its leading and trailing whitespace, then cut at every
  newline, each line is trimmed, and the lines are the positional arguments of the
  direct invocation.
\<close>

theorem magic_argument_parsing:
  "(args_str \<noteq> [] \<and> (hd args_str = of_char CHR ''['' \<or> hd args_str = of_char CHR ''|'') \<longrightarrow>
      (\<exists>inner tokens args.
          strips_to (\<lambda>c. c \<in> of_char ` {CHR ''['', CHR ''|'', CHR '']''}) args_str inner
        \<and> splits_into (\<lambda>c. c = of_char CHR ''|'') inner tokens
        \<and> list_all2 (strips_to (whitespace kind)) tokens args
        \<and> KeywordMagic_call kind kw args_str = debug kw args))
   \<and> (args_str \<noteq> [] \<and> hd args_str \<noteq> of_char CHR ''['' \<and> hd args_str \<noteq> of_char CHR ''|'' \<longrightarrow>
      (\<exists>tokens. splits_into (whitespace kind) args_str tokens
        \<and> KeywordMagic_call kind kw args_str = debug kw (filter (\<lambda>t. t \<noteq> []) tokens)))
   \<and> (\<exists>block lines args.
          strips_to (whitespace kind) args_str block
        \<and> splits_into (\<lambda>c. c = 0x0A) block lines
        \<and> list_all2 (strips_to (whitespace kind)) lines args
        \<and> KeywordCellMagic_call kind kw args_str = call kw args)
   \<and> (whitespace Unicode c \<longleftrightarrow>
         c \<in> {0x09..0x0D} \<union> {0x1C..0x20} \<union> {0x85, 0xA0, 0x1680, 0x180E}
             \<union> {0x2000..0x200A} \<union> {0x2028, 0x2029, 0x202F, 0x205F, 0x3000})
   \<and> (whitespace Str c \<longleftrightarrow> c \<in> {0x09..0x0D} \<union> {0x20})"
proof (intro conjI impI)
  assume a: "args_str \<noteq> [] \<and> (hd args_str = of_char CHR ''['' \<or> hd args_str = of_char CHR ''|'')"
  let ?inner = "strip_chars (literal ''[|]'') args_str"
  let ?tokens = "split_on (of_char CHR ''|'') ?inner"
  have set_eq: "(\<lambda>c. c \<in> set (literal ''[|]''))
                  = (\<lambda>c::nat. c \<in> of_char ` {CHR ''['', CHR ''|'', CHR '']''})"
    by (auto simp: literal_def)
  have 1: "strips_to (\<lambda>c. c \<in> of_char ` {CHR ''['', CHR ''|'', CHR '']''}) args_str ?inner"
    using strip_where_strips_to [of "\<lambda>c. c \<in> set (literal ''[|]'')" args_str]
    unfolding strip_chars_def set_eq .
  have 2: "splits_into (\<lambda>c. c = of_char CHR ''|'') ?inner ?tokens"
    unfolding split_on_def by (rule split_where_splits_into)
  have 3: "list_all2 (strips_to (whitespace kind)) ?tokens (map (py_strip kind) ?tokens)"
    using strips_each [of "whitespace kind" ?tokens] by (simp add: py_strip_def [abs_def])
  have 4: "KeywordMagic_call kind kw args_str = debug kw (map (py_strip kind) ?tokens)"
    using a starts_with_bracket_or_bar [of args_str] by (simp add: KeywordMagic_call_def)
  from 1 2 3 4 show "\<exists>inner tokens args.
          strips_to (\<lambda>c. c \<in> of_char ` {CHR ''['', CHR ''|'', CHR '']''}) args_str inner
        \<and> splits_into (\<lambda>c. c = of_char CHR ''|'') inner tokens
        \<and> list_all2 (strips_to (whitespace kind)) tokens args
        \<and> KeywordMagic_call kind kw args_str = debug kw args"
    by blast
next
  assume a: "args_str \<noteq> [] \<and> hd args_str \<noteq> of_char CHR ''['' \<and> hd args_str \<noteq> of_char CHR ''|''"
  have "KeywordMagic_call kind kw args_str
          = debug kw (filter (\<lambda>t. t \<noteq> []) (split_where (whitespace kind) args_str))"
    using a starts_with_bracket_or_bar [of args_str]
    by (simp add: KeywordMagic_call_def py_split_def)
  with split_where_splits_into [of "whitespace kind" args_str]
  show "\<exists>tokens. splits_into (whitespace kind) args_str tokens
        \<and> KeywordMagic_call kind kw args_str = debug kw (filter (\<lambda>t. t \<noteq> []) tokens)"
    by blast
next
  let ?block = "py_strip kind args_str"
  let ?lines = "split_on 0x0A ?block"
  have 1: "strips_to (whitespace kind) args_str ?block"
    unfolding py_strip_def by (rule strip_where_strips_to)
  have 2: "splits_into (\<lambda>c. c = 0x0A) ?block ?lines"
    unfolding split_on_def by (rule split_where_splits_into)
  have 3: "list_all2 (strips_to (whitespace kind)) ?lines (map (py_strip kind) ?lines)"
    using strips_each [of "whitespace kind" ?lines] by (simp add: py_strip_def [abs_def])
  have 4: "KeywordCellMagic_call kind kw args_str = call kw (map (py_strip kind) ?lines)"
    by (simp add: KeywordCellMagic_call_def)
  from 1 2 3 4 show "\<exists>block lines args.
          strips_to (whitespace kind) args_str block
        \<and> splits_into (\<lambda>c. c = 0x0A) block lines
        \<and> list_all2 (strips_to (whitespace kind)) lines args
        \<and> KeywordCellMagic_call kind kw args_str = call kw args"
    by blast
next
  show "whitespace Unicode c \<longleftrightarrow>
         c \<in> {0x09..0x0D} \<union> {0x1C..0x20} \<union> {0x85, 0xA0, 0x1680, 0x180E}
             \<union> {0x2000..0x200A} \<union> {0x2028, 0x2029, 0x202F, 0x205F, 0x3000}"
    by (rule unicode_space_ranges)
next
  show "whitespace Str c \<longleftrightarrow> c \<in> {0x09..0x0D} \<union> {0x20}"
    by (rule bytes_space_ranges)
qed

text \<open>
  On unicode texts the no-break space, the ideographic space, the em space and the
  next-line character separate and are trimmed; on byte strings the byte \<open>0xA0\<close> is
  part of a token.
\<close>

theorem magic_argument_parsing_witness:
  "KeywordMagic_call Unicode tracing_keyword
        (literal ''[ a |'' @ [0x09, 0x3000] @ literal ''b c ]'')
       = Debugged [literal ''a'', literal ''b c'']
   \<and> KeywordMagic_call Unicode tracing_keyword
        (literal ''a'' @ [0xA0] @ literal ''b  c'' @ [0x2003])
       = Debugged [literal ''a'', literal ''b'', literal ''c'']
   \<and> KeywordMagic_call Str tracing_keyword
        (literal ''a'' @ [0xA0] @ literal ''b  c'' @ [0x0C])
       = Debugged [literal ''a'' @ [0xA0] @ literal ''b'', literal ''c'']
   \<and> KeywordCellMagic_call Unicode tracing_keyword
        ([0x0A] @ literal ''a '' @ [0x0A, 0x85] @ literal ''b'' @ [0x0A])
       = Called [literal ''a'', literal ''b'']"
proof -
  let ?s1 = "literal ''[ a |'' @ [0x09, 0x3000] @ literal ''b c ]''"
  let ?s2 = "literal ''a'' @ [0xA0] @ literal ''b  c'' @ [0x2003]"
  let ?s3 = "literal ''a'' @ [0xA0] @ literal ''b  c'' @ [0x0C]"
  let ?s4 = "[0x0A] @ literal ''a '' @ [0x0A, 0x85] @ literal ''b'' @ [0x0A]"
  have h1: "?s1 \<noteq> [] \<and> (hd ?s1 = of_char CHR ''['' \<or> hd ?s1 = of_char CHR ''|'')"
    by (simp add: literal_def)
  have h2: "?s2 \<noteq> [] \<and> hd ?s2 \<noteq> of_char CHR ''['' \<and> hd ?s2 \<noteq> of_char CHR ''|''"
    by (simp add: literal_def)
  have h3: "?s3 \<noteq> [] \<and> hd ?s3 \<noteq> of_char CHR ''['' \<and> hd ?s3 \<noteq> of_char CHR ''|''"
    by (simp add: literal_def)
  from magic_argument_parsing [of ?s1 Unicode tracing_keyword] h1
  obtain inner tokens args where
    i: "strips_to (\<lambda>c. c \<in> of_char ` {CHR ''['', CHR ''|'', CHR '']''}) ?s1 inner"
    and t: "splits_into (\<lambda>c. c = of_char CHR ''|'') inner tokens"
    and a: "list_all2 (strips_to (whitespace Unicode)) tokens args"
    and r: "KeywordMagic_call Unicode tracing_keyword ?s1 = debug tracing_keyword args"
    by blast
  have "inner = literal '' a |'' @ [0x09, 0x3000] @ literal ''b c ''"
    using strips_to_unique [OF i] by (simp add: strip_where_def literal_def)
  then have "tokens = [literal '' a '', [0x09, 0x3000] @ literal ''b c '']"
    using splits_into_unique [OF t] by (simp add: literal_def)
  then have "args = [literal ''a'', literal ''b c'']"
    using strips_each_unique [OF a] by (simp add: strip_where_def literal_def whitespace_def unicode_space_def)
  with r have c1: "KeywordMagic_call Unicode tracing_keyword ?s1
                     = Debugged [literal ''a'', literal ''b c'']"
    by (simp add: tracing_keyword_def)
  from magic_argument_parsing [of ?s2 Unicode tracing_keyword] h2
  obtain tokens2 where
    t2: "splits_into (whitespace Unicode) ?s2 tokens2"
    and r2: "KeywordMagic_call Unicode tracing_keyword ?s2
               = debug tracing_keyword (filter (\<lambda>t. t \<noteq> []) tokens2)"
    by blast
  have "tokens2 = [literal ''a'', literal ''b'', [], literal ''c'', []]"
    using splits_into_unique [OF t2] by (simp add: literal_def whitespace_def unicode_space_def)
  with r2 have c2: "KeywordMagic_call Unicode tracing_keyword ?s2
                     = Debugged [literal ''a'', literal ''b'', literal ''c'']"
    by (simp add: tracing_keyword_def literal_def)
  from magic_argument_parsing [of ?s3 Str tracing_keyword] h3
  obtain tokens3 where
    t3: "splits_into (whitespace Str) ?s3 tokens3"
    and r3: "KeywordMagic_call Str tracing_keyword ?s3
               = debug tracing_keyword (filter (\<lambda>t. t \<noteq> []) tokens3)"
    by blast
  have "tokens3 = [literal ''a'' @ [0xA0] @ literal ''b'', [], literal ''c'', []]"
    using splits_into_unique [OF t3] by (simp add: literal_def whitespace_def bytes_space_def)
  with r3 have c3: "KeywordMagic_call Str tracing_keyword ?s3
                     = Debugged [literal ''a'' @ [0xA0] @ literal ''b'', literal ''c'']"
    by (simp add: tracing_keyword_def literal_def)
  from magic_argument_parsing [of ?s4 Unicode tracing_keyword]
  obtain block lines args4 where
    b4: "strips_to (whitespace Unicode) ?s4 block"
    and l4: "splits_into (\<lambda>c. c = 0x0A) block lines"
    and a4: "list_all2 (strips_to (whitespace Unicode)) lines args4"
    and r4: "KeywordCellMagic_call Unicode tracing_keyword ?s4 = call tracing_keyword args4"
    by blast
  have "block = literal ''a '' @ [0x0A, 0x85] @ literal ''b''"
    using strips_to_unique [OF b4] by (simp add: strip_where_def literal_def whitespace_def unicode_space_def)
  then have "lines = [literal ''a '', [0x85] @ literal ''b'']"
    using splits_into_unique [OF l4] by (simp add: literal_def)
  then have "args4 = [literal ''a'', literal ''b'']"
    using strips_each_unique [OF a4] by (simp add: strip_where_def literal_def whitespace_def unicode_space_def)
  with r4 have c4: "KeywordCellMagic_call Unicode tracing_keyword ?s4
                     = Called [literal ''a'', literal ''b'']"
    by (simp add: tracing_keyword_def)
  from c1 c2 c3 c4 show ?thesis by blast
qed

text \<open>
  The claim as stated fails for the cell magic: the block \<open>a\<close> followed by a newline
  gives the single argument \<open>a\<close>, where splitting the block itself at newlines gives
  a second, empty argument.
\<close>

theorem cell_block_counterexample:
  "KeywordCellMagic_call Unicode tracing_keyword (literal ''a'' @ [0x0A])
     = Called [literal ''a'']
   \<and> call tracing_keyword
        (map (py_strip Unicode) (split_on 0x0A (literal ''a'' @ [0x0A])))
       = Called [literal ''a'', []]"
  by (simp add: KeywordCellMagic_call_def tracing_keyword_def py_strip_def
      strip_where_def split_on_def whitespace_def unicode_space_def literal_def)

text \<open>
  Claim C10. For every keyword line magic, the empty argument string calls the keyword
  itself with no argument: neither the parsing nor the debug invocation takes part, as
  the recording keyword shows.
\<close>

theorem empty_line_direct_call:
  "KeywordMagic_call kind kw [] = call kw []
   \<and> KeywordMagic_call kind tracing_keyword [] = Called []"
  by (simp add: KeywordMagic_call_def tracing_keyword_def)

section \<open>Properties of the remote robot\<close>

lemma register_all_other:
  "k \<notin> fst ` set kvs \<Longrightarrow> map_of (register_all kvs fs) k = map_of fs k"
  by (induction kvs fs rule: register_all.induct)
     (auto simp: register_function_def update_conv')

lemma register_all_names:
  "fst ` set (register_all kvs fs) = fst ` set kvs \<union> fst ` set fs"
  by (induction kvs fs rule: register_all.induct)
     (auto simp: register_function_def dom_update)

lemma register_keyword_endpoints:
  "map_of (register_keyword N kw fs) N = Some (rk_call kw)
   \<and> map_of (register_keyword N kw fs) (N @ ''.__repr__'')
       = Some (no_parameters ''__repr__'' (PyStr (rk_repr kw)))
   \<and> map_of (register_keyword N kw fs) (N @ ''.getdoc'')
       = Some (no_parameters ''<lambda>'' (PyStr (rk_doc kw)))
   \<and> map_of (register_keyword N kw fs) (N @ ''.__nonzero__'')
       = Some (no_parameters ''<lambda>'' (PyBool True))"
  by (simp add: register_keyword_def keyword_functions_def register_function_def update_conv')

lemma register_keyword_names:
  "fst ` set (register_keyword N kw fs)
     = {N, N @ ''.__repr__'', N @ ''.getdoc'', N @ ''.__nonzero__''} \<union> fst ` set fs"
  unfolding register_keyword_def register_all_names
  by (auto simp: keyword_functions_def)

lemma register_keyword_other:
  "k \<notin> {N, N @ ''.__repr__'', N @ ''.getdoc'', N @ ''.__nonzero__''}
   \<Longrightarrow> map_of (register_keyword N kw fs) k = map_of fs k"
  unfolding register_keyword_def
  by (rule register_all_other) (simp add: keyword_functions_def)

lemma dotted_name_eq:
  assumes "CHR ''.'' \<notin> set N" and "CHR ''.'' \<notin> set M"
    and "N @ CHR ''.'' # a = M @ CHR ''.'' # b"
  shows "N = M \<and> a = b"
proof -
  have "takeWhile (\<lambda>c. c \<noteq> CHR ''.'') (N @ CHR ''.'' # a) = N"
    using assms(1) by (auto simp: takeWhile_tail)
  moreover have "takeWhile (\<lambda>c. c \<noteq> CHR ''.'') (M @ CHR ''.'' # b) = M"
    using assms(2) by (auto simp: takeWhile_tail)
  ultimately have "N = M" using assms(3) by simp
  with assms(3) show ?thesis by simp
qed

lemma nonzero_name_not_registered_by_other:
  assumes "CHR ''.'' \<notin> set N" and "CHR ''.'' \<notin> set M" and "N \<noteq> M"
  shows "N @ ''.__nonzero__'' \<notin> {M, M @ ''.__repr__'', M @ ''.getdoc'', M @ ''.__nonzero__''}"
proof -
  have "N @ ''.__nonzero__'' \<noteq> M" using assms(2) by auto
  moreover have "N @ ''.__nonzero__'' \<noteq> M @ ''.__repr__''"
    using dotted_name_eq [OF assms(1,2), of "''__nonzero__''" "''__repr__''"] by auto
  moreover have "N @ ''.__nonzero__'' \<noteq> M @ ''.getdoc''"
    using dotted_name_eq [OF assms(1,2), of "''__nonzero__''" "''getdoc''"] by auto
  moreover have "N @ ''.__nonzero__'' \<noteq> M @ ''.__nonzero__''"
    using assms(3) by simp
  ultimately show ?thesis by simp
qed

lemma register_keyword_names_nonzero:
  assumes "register_keyword_names getitem names fs = Inr fs'"
    and "\<forall>M \<in> set names. CHR ''.'' \<notin> set M"
    and "CHR ''.'' \<notin> set N"
    and "N \<in> set names
         \<or> map_of fs (N @ ''.__nonzero__'') = Some (no_parameters ''<lambda>'' (PyBool True))"
  shows "map_of fs' (N @ ''.__nonzero__'') = Some (no_parameters ''<lambda>'' (PyBool True))"
  using assms
proof (induction names arbitrary: fs)
  case Nil
  then show ?case by simp
next
  case (Cons M rest)
  from Cons.prems(1) obtain kw where kw: "getitem M = Inr kw"
    and rest: "register_keyword_names getitem rest (register_keyword M kw fs) = Inr fs'"
    by (auto split: sum.splits)
  have "N \<in> set rest
        \<or> map_of (register_keyword M kw fs) (N @ ''.__nonzero__'')
            = Some (no_parameters ''<lambda>'' (PyBool True))"
  proof (cases "N = M")
    case True
    then show ?thesis by (simp add: register_keyword_endpoints)
  next
    case False
    have "CHR ''.'' \<notin> set M" using Cons.prems(2) by simp
    from nonzero_name_not_registered_by_other [OF Cons.prems(3) this False]
    have "map_of (register_keyword M kw fs) (N @ ''.__nonzero__'')
            = map_of fs (N @ ''.__nonzero__'')"
      by (rule register_keyword_other)
    with Cons.prems(4) False show ?thesis by auto
  qed
  with Cons.IH [OF rest] Cons.prems(2,3) show ?case by simp
qed

lemma register_keyword_names_subset:
  assumes "register_keyword_names getitem names fs = Inr fs'"
  shows "fst ` set fs \<subseteq> fst ` set fs'
       \<and> (\<forall>N \<in> set names. {N, N @ ''.__repr__'', N @ ''.getdoc'', N @ ''.__nonzero__''}
             \<subseteq> fst ` set fs')"
  using assms
proof (induction names arbitrary: fs)
  case Nil
  then show ?case by simp
next
  case (Cons M rest)
  from Cons.prems obtain kw where kw: "getitem M = Inr kw"
    and rest: "register_keyword_names getitem rest (register_keyword M kw fs) = Inr fs'"
    by (auto split: sum.splits)
  from Cons.IH [OF rest] show ?case
    by (auto simp: register_keyword_names)
qed

lemma register_libraries_subset:
  assumes "register_libraries api self libs fs = Inr fs'"
  shows "fst ` set fs \<subseteq> fst ` set fs'
       \<and> (\<forall>lib \<in> set libs. \<forall>N \<in> set (lib_dir api lib).
             {N, N @ ''.__repr__'', N @ ''.getdoc'', N @ ''.__nonzero__''} \<subseteq> fst ` set fs')"
  using assms
proof (induction libs arbitrary: fs)
  case Nil
  then show ?case by simp
next
  case (Cons lib rest)
  from Cons.prems obtain fs1 where
    one: "register_keyword_names (robot_getitem api self) (lib_dir api lib) fs = Inr fs1"
    and rest: "register_libraries api self rest fs1 = Inr fs'"
    by (auto simp: register_library_keywords_def split: sum.splits)
  from register_keyword_names_subset [OF one] Cons.IH [OF rest] show ?case
    by (simp add: subset_iff)
qed

lemma register_libraries_nonzero:
  assumes "register_libraries api self libs fs = Inr fs'"
    and "\<forall>lib \<in> set libs. \<forall>M \<in> set (lib_dir api lib). CHR ''.'' \<notin> set M"
    and "CHR ''.'' \<notin> set N"
    and "(\<exists>lib \<in> set libs. N \<in> set (lib_dir api lib))
         \<or> map_of fs (N @ ''.__nonzero__'') = Some (no_parameters ''<lambda>'' (PyBool True))"
  shows "map_of fs' (N @ ''.__nonzero__'') = Some (no_parameters ''<lambda>'' (PyBool True))"
  using assms
proof (induction libs arbitrary: fs)
  case Nil
  then show ?case by simp
next
  case (Cons lib rest)
  from Cons.prems(1) obtain fs1 where
    one: "register_keyword_names (robot_getitem api self) (lib_dir api lib) fs = Inr fs1"
    and rest: "register_libraries api self rest fs1 = Inr fs'"
    by (auto simp: register_library_keywords_def split: sum.splits)
  have dots: "\<forall>M \<in> set (lib_dir api lib). CHR ''.'' \<notin> set M"
    using Cons.prems(2) by simp
  have "(\<exists>lib \<in> set rest. N \<in> set (lib_dir api lib))
        \<or> map_of fs1 (N @ ''.__nonzero__'') = Some (no_parameters ''<lambda>'' (PyBool True))"
  proof (cases "\<exists>lib \<in> set rest. N \<in> set (lib_dir api lib)")
    case True
    then show ?thesis by simp
  next
    case False
    with Cons.prems(4) have "N \<in> set (lib_dir api lib)
        \<or> map_of fs (N @ ''.__nonzero__'') = Some (no_parameters ''<lambda>'' (PyBool True))"
      by auto
    from register_keyword_names_nonzero [OF one dots Cons.prems(3) this] show ?thesis by simp
  qed
  with Cons.IH [OF rest] Cons.prems(2,3) show ?case by simp
qed

lemma register_functions_fields:
  assumes "register_functions api self = Inr r"
  shows "libraries r = libraries self" and "register_keywords r = register_keywords self"
    and "introspection r = introspection self" and "allow_import r = allow_import self"
  using assms
  by (auto simp: register_functions_def Let_def split: sum.splits if_splits)


lemma register_functions_keywords:
  assumes "register_functions api self = Inr r" and "register_keywords self"
  shows "\<exists>fs1. register_libraries api self (map snd (libraries self))
                 (register_all (base_functions api) (funcs self)) = Inr fs1
             \<and> funcs r = (if introspection self
                          then register_all (introspection_functions api) fs1 else fs1)"
  using assms
  by (auto simp: register_functions_def Let_def split: sum.splits)

lemma RemoteRobot_init_phases:
  assumes "RemoteRobot_init api libs allow reg intro = Inr r"
  shows "\<exists>s. import_libraries api libs (robot_before_imports api reg intro) = Inr s
           \<and> register_functions api
                (s\<lparr>allow_import := Some (case allow of None \<Rightarrow> [] | Some xs \<Rightarrow> xs)\<rparr>) = Inr r"
  using assms by (auto simp: RemoteRobot_init_def split: sum.splits)

lemma nonzero_lambda:
  "no_parameters ''<lambda>'' (PyBool True) params
     = (if params = [] then Inr (PyBool True) else Inl (TypeError ''<lambda>''))"
  by (simp add: no_parameters_def)

lemma plain_robot_constructed:
  "RemoteRobot_init plain_api [''LibB''] (Some [''LibA'']) True True = Inr plain_robot"
  by (simp add: RemoteRobot_init_def robot_before_imports_def plain_api_def plain_robot_def
      register_functions_def register_library_keywords_def Let_def)

text \<open>
  The flag \<open>register_keywords\<close> of the constructed robot is the constructor's
  argument, as long as \<open>TestRobot.Import\<close> leaves the flag alone.
\<close>

lemma import_libraries_flag:
  assumes "\<forall>lib s s'. robot_Import api lib s = Inr s'
             \<longrightarrow> register_keywords s' = register_keywords s"
    and "import_libraries api libs s = Inr s'"
  shows "register_keywords s' = register_keywords s"
  using assms(2)
proof (induction libs arbitrary: s)
  case Nil
  then show ?case by simp
next
  case (Cons lib rest)
  from Cons.prems obtain s1 where one: "robot_Import api lib s = Inr s1"
    and rest: "import_libraries api rest s1 = Inr s'"
    by (auto split: sum.splits)
  from assms(1) one have "register_keywords s1 = register_keywords s" by blast
  with Cons.IH [OF rest] show ?case by simp
qed

lemma constructed_flag:
  assumes "\<forall>lib s s'. robot_Import api lib s = Inr s'
             \<longrightarrow> register_keywords s' = register_keywords s"
    and "RemoteRobot_init api libs allow reg intro = Inr r"
  shows "register_keywords r = reg"
proof -
  from RemoteRobot_init_phases [OF assms(2)] obtain s where
    s: "import_libraries api libs (robot_before_imports api reg intro) = Inr s"
    and r: "register_functions api
              (s\<lparr>allow_import := Some (case allow of None \<Rightarrow> [] | Some xs \<Rightarrow> xs)\<rparr>) = Inr r"
    by blast
  from import_libraries_flag [OF assms(1) s] register_functions_fields(2) [OF r]
  show ?thesis by (simp add: robot_before_imports_def)
qed

text \<open>
  Claim C5, as the code has it. On a robot constructed with keyword registration on,
  for every keyword name \<open>N\<close> of every wrapped library the four remote functions
  \<open>N\<close>, \<open>N.__repr__\<close>, \<open>N.getdoc\<close> and \<open>N.__nonzero__\<close> are registered; registering
  one keyword adds exactly these four names, the last bound to \<^verbatim>\<open>lambda: True\<close>.
  That function returns true when invoked without arguments and fails with
  \<open>TypeError\<close> when invoked with any argument; this is what a request for
  \<open>N.__nonzero__\<close> gets from the constructed robot, given that keyword names contain
  no dot and that no introspection function has this name.
\<close>

theorem remote_keyword_endpoints:
  assumes "RemoteRobot_init api libs allow reg intro = Inr r"
    and "register_keywords r"
    and "(libname, lib) \<in> set (libraries r)"
    and "N \<in> set (lib_dir api lib)"
  shows "{N, N @ ''.__repr__'', N @ ''.getdoc'', N @ ''.__nonzero__''} \<subseteq> fst ` set (funcs r)
       \<and> fst ` set (register_keyword N kw fs)
           = {N, N @ ''.__repr__'', N @ ''.getdoc'', N @ ''.__nonzero__''} \<union> fst ` set fs
       \<and> map_of (register_keyword N kw fs) (N @ ''.__nonzero__'')
           = Some (no_parameters ''<lambda>'' (PyBool True))
       \<and> no_parameters ''<lambda>'' (PyBool True) [] = Inr (PyBool True)
       \<and> (params \<noteq> [] \<longrightarrow>
            no_parameters ''<lambda>'' (PyBool True) params = Inl (TypeError ''<lambda>''))
       \<and> ((\<forall>l \<in> snd ` set (libraries r). \<forall>M \<in> set (lib_dir api l). CHR ''.'' \<notin> set M)
            \<and> (introspection r \<longrightarrow>
                  N @ ''.__nonzero__'' \<notin> fst ` set (introspection_functions api))
          \<longrightarrow> dispatch r (N @ ''.__nonzero__'') params
                = (if params = [] then Inr (PyBool True) else Inl (TypeError ''<lambda>'')))"
proof -
  from RemoteRobot_init_phases [OF assms(1)] obtain s where
    reg: "register_functions api
            (s\<lparr>allow_import := Some (case allow of None \<Rightarrow> [] | Some xs \<Rightarrow> xs)\<rparr>) = Inr r"
    by blast
  let ?self = "s\<lparr>allow_import := Some (case allow of None \<Rightarrow> [] | Some xs \<Rightarrow> xs)\<rparr>"
  note fields = register_functions_fields [OF reg]
  have flag: "register_keywords ?self" using assms(2) fields(2) by simp
  from register_functions_keywords [OF reg flag] obtain fs1 where
    libs: "register_libraries api ?self (map snd (libraries ?self))
             (register_all (base_functions api) (funcs ?self)) = Inr fs1"
    and fr: "funcs r = (if introspection ?self
                        then register_all (introspection_functions api) fs1 else fs1)"
    by blast
  have lib_in: "lib \<in> set (map snd (libraries ?self))"
    using assms(3) fields(1) by force
  have "{N, N @ ''.__repr__'', N @ ''.getdoc'', N @ ''.__nonzero__''} \<subseteq> fst ` set fs1"
    using register_libraries_subset [OF libs] lib_in assms(4) by blast
  then have part1: "{N, N @ ''.__repr__'', N @ ''.getdoc'', N @ ''.__nonzero__''}
                      \<subseteq> fst ` set (funcs r)"
    unfolding fr by (auto simp: register_all_names)
  have part6: "dispatch r (N @ ''.__nonzero__'') params
                = (if params = [] then Inr (PyBool True) else Inl (TypeError ''<lambda>''))"
    if dots: "\<forall>l \<in> snd ` set (libraries r). \<forall>M \<in> set (lib_dir api l). CHR ''.'' \<notin> set M"
      and intro_ok: "introspection r \<longrightarrow>
                  N @ ''.__nonzero__'' \<notin> fst ` set (introspection_functions api)"
  proof -
    have d1: "\<forall>l \<in> set (map snd (libraries ?self)). \<forall>M \<in> set (lib_dir api l). CHR ''.'' \<notin> set M"
      using dots fields(1) by simp
    have d2: "CHR ''.'' \<notin> set N" using d1 lib_in assms(4) by blast
    have d3: "(\<exists>l \<in> set (map snd (libraries ?self)). N \<in> set (lib_dir api l))
              \<or> map_of (register_all (base_functions api) (funcs ?self)) (N @ ''.__nonzero__'')
                  = Some (no_parameters ''<lambda>'' (PyBool True))"
      using lib_in assms(4) by blast
    have m1: "map_of fs1 (N @ ''.__nonzero__'') = Some (no_parameters ''<lambda>'' (PyBool True))"
      by (rule register_libraries_nonzero [OF libs d1 d2 d3])
    have "map_of (funcs r) (N @ ''.__nonzero__'') = Some (no_parameters ''<lambda>'' (PyBool True))"
    proof (cases "introspection ?self")
      case True
      then have "N @ ''.__nonzero__'' \<notin> fst ` set (introspection_functions api)"
        using intro_ok fields(3) by simp
      then show ?thesis using m1 True fr by (simp add: register_all_other)
    next
      case False
      then show ?thesis using m1 fr by simp
    qed
    then show ?thesis by (simp add: dispatch_def nonzero_lambda)
  qed
  show ?thesis
    using part1 part6
    by (simp add: register_keyword_names register_keyword_endpoints nonzero_lambda)
qed

theorem remote_keyword_endpoints_witness:
  "RemoteRobot_init plain_api [''LibB''] (Some [''LibA'']) True True = Inr plain_robot
   \<and> register_keywords plain_robot
   \<and> (''LibB'', [''LibBKeyword'']) \<in> set (libraries plain_robot)
   \<and> ''LibBKeyword'' \<in> set (lib_dir plain_api [''LibBKeyword''])
   \<and> {''LibBKeyword'', ''LibBKeyword.__repr__'', ''LibBKeyword.getdoc'',
        ''LibBKeyword.__nonzero__''} \<subseteq> fst ` set (funcs plain_robot)
   \<and> dispatch plain_robot ''LibBKeyword.__nonzero__'' [] = Inr (PyBool True)"
proof -
  have h2: "register_keywords plain_robot" by (simp add: plain_robot_def)
  have h3: "(''LibB'', [''LibBKeyword'']) \<in> set (libraries plain_robot)"
    by (simp add: plain_robot_def)
  have h4: "''LibBKeyword'' \<in> set (lib_dir plain_api [''LibBKeyword''])"
    by (simp add: plain_api_def)
  have h5: "(\<forall>l \<in> snd ` set (libraries plain_robot).
               \<forall>M \<in> set (lib_dir plain_api l). CHR ''.'' \<notin> set M)
            \<and> (introspection plain_robot \<longrightarrow>
                 ''LibBKeyword'' @ ''.__nonzero__''
                   \<notin> fst ` set (introspection_functions plain_api))"
    by (simp add: plain_robot_def plain_api_def)
  show ?thesis
    using plain_robot_constructed h2 h3 h4 h5
      remote_keyword_endpoints [OF plain_robot_constructed h2 h3 h4, of _ _ "[]"]
    by simp
qed

text \<open>
  The claim as stated fails: with one argument the \<open>__nonzero__\<close> function does not
  return true.
\<close>

theorem nonzero_arguments_counterexample:
  "RemoteRobot_init plain_api [''LibB''] (Some [''LibA'']) True True = Inr plain_robot
   \<and> dispatch plain_robot ''LibBKeyword.__nonzero__'' [PyNone] = Inl (TypeError ''<lambda>'')"
  by (simp add: plain_robot_constructed)
     (simp add: dispatch_def plain_robot_def plain_api_def register_keyword_def
      keyword_functions_def register_function_def no_parameters_def)

text \<open>
  The import loop passes every library to \<open>TestRobot.Import\<close>, in the order given
  and each on the robot that the imports before it have left; it stops at the first
  import that fails.
\<close>

lemma import_libraries_append:
  "import_libraries api (xs @ ys) s0
     = (case import_libraries api xs s0 of
          Inl e \<Rightarrow> Inl e
        | Inr s \<Rightarrow> import_libraries api ys s)"
  by (induction xs arbitrary: s0) (auto split: sum.splits)

lemma import_libraries_prefix:
  assumes "\<forall>lib \<in> set xs. \<forall>s. robot_Import api lib s = Inr (f lib s)"
  shows "import_libraries api xs s0 = Inr (fold f xs s0)"
  using assms by (induction xs arbitrary: s0) simp_all

lemma import_libraries_first_failure:
  assumes "\<forall>lib \<in> set xs. \<forall>s. robot_Import api lib s = Inr (f lib s)"
    and "robot_Import api lib (fold f xs s0) = Inl e"
  shows "import_libraries api (xs @ lib # ys) s0 = Inl e"
  using assms(2) by (simp add: import_libraries_append import_libraries_prefix [OF assms(1)])

text \<open>
  Without keyword registration the registration of the remote functions cannot fail.
  Over the recording base classes the constructor succeeds for every list of libraries
  and every allow-list, and each import has found \<open>allow_import\<close> unassigned.
\<close>

lemma register_libraries_no_keywords:
  "\<forall>lib \<in> set libs. lib_dir api lib = [] \<Longrightarrow> register_libraries api self libs fs = Inr fs"
  by (induction libs) (simp_all add: register_library_keywords_def)

lemma register_functions_without_keywords:
  "\<not> register_keywords self \<Longrightarrow>
   register_functions api self
     = Inr (self\<lparr>funcs := (if introspection self
               then register_all (introspection_functions api)
                      (register_all (base_functions api) (funcs self))
               else register_all (base_functions api) (funcs self))\<rparr>)"
  by (simp add: register_functions_def Let_def)

lemma recording_api_fields:
  "robot_Import recording_api lib s
     = Inr (s\<lparr>libraries := libraries s @ [(lib, allow_import s)]\<rparr>)"
  "initial_libraries recording_api = []"
  "lib_dir recording_api l = []"
  "base_functions recording_api = []"
  "introspection_functions recording_api = []"
  by (simp_all add: recording_api_def)

lemma recording_imports:
  "import_libraries recording_api libs s
     = Inr (s\<lparr>libraries := libraries s @ map (\<lambda>lib. (lib, allow_import s)) libs\<rparr>)"
proof (induction libs arbitrary: s)
  case Nil
  show ?case by simp
next
  case (Cons lib libs)
  show ?case by (simp add: recording_api_fields(1) Cons.IH)
qed

lemma recording_constructor:
  "RemoteRobot_init recording_api libs allow reg intro
     = Inr \<lparr>libraries = map (\<lambda>lib. (lib, None)) libs,
            register_keywords = reg, introspection = intro,
            allow_import = Some (case allow of None \<Rightarrow> [] | Some xs \<Rightarrow> xs),
            funcs = []\<rparr>"
proof -
  have regs: "register_libraries recording_api self ls [] = Inr []" for self ls
    by (rule register_libraries_no_keywords) (simp add: recording_api_fields)
  show ?thesis
    by (simp add: RemoteRobot_init_def recording_imports robot_before_imports_def
        register_functions_def Let_def regs recording_api_fields)
qed

lemma two_library_robot_constructed:
  "RemoteRobot_init plain_api [''LibB'', ''LibC''] (Some [''LibA'']) True True
     = Inr two_library_robot"
  by (simp add: RemoteRobot_init_def robot_before_imports_def plain_api_def
      two_library_robot_def register_functions_def register_library_keywords_def Let_def)

text \<open>
  Claim C9. When the import loop of the constructor starts, \<open>allow_import\<close> is not
  assigned. The loop passes every library of the \<open>libraries\<close> argument to
  \<open>TestRobot.Import\<close>, in order: when no import fails, the robot after the loop is the
  one that the imports, one after the other, have made; when an import fails, the
  constructor ends with its error, whatever the allow-list argument is. When the loop
  has succeeded, the constructor assigns \<open>allow_import\<close> the list given, the empty list
  when \<^verbatim>\<open>None\<close> was given, and goes on to register the remote functions: no
  library is checked against the allow-list, and without keyword registration the
  constructor succeeds whenever the imports do. The libraries of the constructed robot
  are therefore the same for any two allow-list arguments. Over base classes whose
  \<open>Import\<close> records the library together with the \<open>allow_import\<close> that it finds, the
  constructor succeeds for every list of libraries and every allow-list, and the
  record has every library, in order, each with \<open>allow_import\<close> unassigned.
\<close>

theorem imports_precede_allow_list:
  "allow_import (robot_before_imports api reg intro) = None
   \<and> ((\<forall>lib \<in> set libs. \<forall>s. robot_Import api lib s = Inr (f lib s))
        \<longrightarrow> import_libraries api libs (robot_before_imports api reg intro)
              = Inr (fold f libs (robot_before_imports api reg intro)))
   \<and> ((\<forall>l \<in> set xs. \<forall>s. robot_Import api l s = Inr (f l s))
        \<and> robot_Import api lib (fold f xs (robot_before_imports api reg intro)) = Inl e'
        \<longrightarrow> RemoteRobot_init api (xs @ lib # ys) allow reg intro = Inl e')
   \<and> (import_libraries api libs (robot_before_imports api reg intro) = Inl e
        \<longrightarrow> RemoteRobot_init api libs allow reg intro = Inl e)
   \<and> (\<forall>s. import_libraries api libs (robot_before_imports api reg intro) = Inr s
        \<longrightarrow> RemoteRobot_init api libs allow reg intro
              = register_functions api
                  (s\<lparr>allow_import := Some (case allow of None \<Rightarrow> [] | Some xs \<Rightarrow> xs)\<rparr>))
   \<and> (\<forall>s. import_libraries api libs (robot_before_imports api reg intro) = Inr s
            \<and> \<not> register_keywords s
        \<longrightarrow> (\<exists>r. RemoteRobot_init api libs allow reg intro = Inr r
                 \<and> libraries r = libraries s
                 \<and> allow_import r = Some (case allow of None \<Rightarrow> [] | Some xs \<Rightarrow> xs)))
   \<and> (RemoteRobot_init api libs allow reg intro = Inr r
        \<longrightarrow> (\<exists>s. import_libraries api libs (robot_before_imports api reg intro) = Inr s
                 \<and> libraries r = libraries s)
            \<and> allow_import r = Some (case allow of None \<Rightarrow> [] | Some xs \<Rightarrow> xs))
   \<and> (RemoteRobot_init api libs None reg intro = Inr r \<longrightarrow> allow_import r = Some [])
   \<and> (RemoteRobot_init api libs allow reg intro = Inr r
        \<and> RemoteRobot_init api libs allow' reg intro = Inr r'
        \<longrightarrow> libraries r' = libraries r)
   \<and> RemoteRobot_init recording_api names allow reg intro
       = Inr \<lparr>libraries = map (\<lambda>lib. (lib, None)) names,
              register_keywords = reg, introspection = intro,
              allow_import = Some (case allow of None \<Rightarrow> [] | Some xs \<Rightarrow> xs),
              funcs = []\<rparr>"
proof -
  let ?s0 = "robot_before_imports api reg intro"
  have a: "allow_import ?s0 = None"
    by (simp add: robot_before_imports_def)
  have f1: "import_libraries api libs ?s0 = Inr (fold f libs ?s0)"
    if "\<forall>lib \<in> set libs. \<forall>s. robot_Import api lib s = Inr (f lib s)"
    using that by (rule import_libraries_prefix)
  have f2: "RemoteRobot_init api (xs @ lib # ys) allow reg intro = Inl e'"
    if "\<forall>l \<in> set xs. \<forall>s. robot_Import api l s = Inr (f l s)"
      and "robot_Import api lib (fold f xs ?s0) = Inl e'"
    using import_libraries_first_failure [OF that] by (simp add: RemoteRobot_init_def)
  have b: "RemoteRobot_init api libs allow reg intro = Inl e"
    if "import_libraries api libs ?s0 = Inl e"
    using that by (simp add: RemoteRobot_init_def)
  have g: "RemoteRobot_init api libs allow reg intro
              = register_functions api
                  (s\<lparr>allow_import := Some (case allow of None \<Rightarrow> [] | Some xs \<Rightarrow> xs)\<rparr>)"
    if "import_libraries api libs ?s0 = Inr s" for s
    using that by (simp add: RemoteRobot_init_def)
  have h: "\<exists>r. RemoteRobot_init api libs allow reg intro = Inr r
                 \<and> libraries r = libraries s
                 \<and> allow_import r = Some (case allow of None \<Rightarrow> [] | Some xs \<Rightarrow> xs)"
    if "import_libraries api libs ?s0 = Inr s" and "\<not> register_keywords s" for s
    using that by (simp add: g register_functions_without_keywords)
  have c: "(\<exists>s. import_libraries api libs ?s0 = Inr s \<and> libraries r' = libraries s)
            \<and> allow_import r' = Some (case allow' of None \<Rightarrow> [] | Some xs \<Rightarrow> xs)"
    if "RemoteRobot_init api libs allow' reg intro = Inr r'" for allow' r'
  proof -
    from RemoteRobot_init_phases [OF that] obtain s where
      s: "import_libraries api libs ?s0 = Inr s"
      and reg: "register_functions api
            (s\<lparr>allow_import := Some (case allow' of None \<Rightarrow> [] | Some xs \<Rightarrow> xs)\<rparr>) = Inr r'"
      by blast
    from register_functions_fields [OF reg] s show ?thesis by simp
  qed
  from c [of None r] have d: "allow_import r = Some []"
    if "RemoteRobot_init api libs None reg intro = Inr r"
    using that by simp
  have e: "libraries r' = libraries r"
    if "RemoteRobot_init api libs allow reg intro = Inr r"
      and "RemoteRobot_init api libs allow' reg intro = Inr r'"
    using c [OF that(1)] c [OF that(2)] by auto
  note i = recording_constructor [of names allow reg intro]
  from a f1 f2 b g h c [of allow r] d e i show ?thesis by blast
qed

theorem imports_precede_allow_list_witness:
  "robot_Import plain_api ''LibB'' (robot_before_imports plain_api True True)
     = Inr (plain_import ''LibB'' (robot_before_imports plain_api True True))
   \<and> import_libraries plain_api [''LibB'', ''LibC''] (robot_before_imports plain_api True True)
       = Inr (plain_import ''LibC'' (plain_import ''LibB''
                (robot_before_imports plain_api True True)))
   \<and> RemoteRobot_init plain_api [''LibB'', ''LibC''] (Some [''LibA'']) True True
       = Inr two_library_robot
   \<and> libraries two_library_robot
       = [(''LibB'', [''LibBKeyword'']), (''LibC'', [''LibCKeyword''])]
   \<and> allow_import two_library_robot = Some [''LibA'']
   \<and> allow_import (robot_before_imports plain_api True True) = None
   \<and> robot_Import partial_api ''LibB'' (robot_before_imports partial_api True True)
       = Inr (plain_import ''LibB'' (robot_before_imports partial_api True True))
   \<and> robot_Import partial_api ''Missing''
        (fold plain_import [''LibB''] (robot_before_imports partial_api True True))
       = Inl (RuntimeError ''Missing'')
   \<and> RemoteRobot_init partial_api [''LibB'', ''Missing'', ''LibC''] (Some [''LibA'']) True True
       = Inl (RuntimeError ''Missing'')
   \<and> RemoteRobot_init recording_api [''LibB'', ''LibC''] (Some [''LibA'']) True True
       = Inr \<lparr>libraries = [(''LibB'', None), (''LibC'', None)],
              register_keywords = True, introspection = True,
              allow_import = Some [''LibA''], funcs = []\<rparr>"
proof -
  have h1: "\<forall>lib \<in> set [''LibB'', ''LibC'']. \<forall>s.
              robot_Import plain_api lib s = Inr (plain_import lib s)"
    by (simp add: plain_api_def plain_import_def)
  have h2: "\<forall>l \<in> set [''LibB'']. \<forall>s. robot_Import partial_api l s = Inr (plain_import l s)"
    by (simp add: partial_api_def)
  have h3: "robot_Import partial_api ''Missing''
        (fold plain_import [''LibB''] (robot_before_imports partial_api True True))
       = Inl (RuntimeError ''Missing'')"
    by (simp add: partial_api_def)
  note t1 = imports_precede_allow_list
    [of plain_api True True "[''LibB'', ''LibC'']" plain_import "[]" "''LibB''" "KeyError []"
        "[]" "Some [''LibA'']" "KeyError []" two_library_robot "Some [''LibA'']"
        two_library_robot "[''LibB'', ''LibC'']"]
  note t2 = imports_precede_allow_list
    [of partial_api True True "[]" plain_import "[''LibB'']" "''Missing''"
        "RuntimeError ''Missing''" "[''LibC'']" "Some [''LibA'']" "KeyError []" two_library_robot
        "Some [''LibA'']" two_library_robot "[]"]
  have c1: "import_libraries plain_api [''LibB'', ''LibC''] (robot_before_imports plain_api True True)
       = Inr (plain_import ''LibC'' (plain_import ''LibB''
                (robot_before_imports plain_api True True)))"
    using t1 h1 by simp
  have c2: "RemoteRobot_init partial_api [''LibB'', ''Missing'', ''LibC''] (Some [''LibA''])
              True True = Inl (RuntimeError ''Missing'')"
    using t2 h2 h3 by simp
  have c3: "RemoteRobot_init recording_api [''LibB'', ''LibC''] (Some [''LibA'']) True True
       = Inr \<lparr>libraries = [(''LibB'', None), (''LibC'', None)],
              register_keywords = True, introspection = True,
              allow_import = Some [''LibA''], funcs = []\<rparr>"
    using t1 by simp
  have c4: "allow_import (robot_before_imports plain_api True True) = None"
    using t1 by simp
  show ?thesis
    using h1 h2 h3 c1 c2 c3 c4 two_library_robot_constructed
    by (simp add: two_library_robot_def)
qed


end
